theory Spec2Isabelle
  imports Complex_Main "HOL-Library.Sublist" "HOL-Library.AList" "HOL-Library.Product_Lexorder"
begin

section \<open>Numbers and strings of the host language\<close>

text \<open>
  A JavaScript \<open>number\<close> that holds a finite amount is modelled as an exact real number:
  sums, products and quotients are the exact ones, where the program computes them in
  binary64 and can be off in the last bit. The result of a division, which can be \<open>NaN\<close> or
  infinite, is a value of \<open>jsnum\<close>.
\<close>

datatype jsnum = Num real | NaN | PosInf | NegInf

definition jsDiv :: "real \<Rightarrow> real \<Rightarrow> jsnum" where
  "jsDiv a b =
     (if b = 0 then (if a = 0 then NaN else if 0 < a then PosInf else NegInf)
      else Num (a / b))"

definition jsTimes :: "jsnum \<Rightarrow> real \<Rightarrow> jsnum" where
  "jsTimes x c =
     (case x of
        Num a \<Rightarrow> Num (a * c)
      | NaN \<Rightarrow> NaN
      | PosInf \<Rightarrow> (if c = 0 then NaN else if 0 < c then PosInf else NegInf)
      | NegInf \<Rightarrow> (if c = 0 then NaN else if 0 < c then NegInf else PosInf))"

definition isFinite :: "jsnum \<Rightarrow> bool" where
  "isFinite x = (case x of Num _ \<Rightarrow> True | _ \<Rightarrow> False)"

text \<open>
  \<open>Math.round\<close>: the nearest integer, a tie going up. On the exact value this is the
  program's result whenever the binary64 value it rounds is the exact one, as it is for the
  figures evaluated below. Where the exact value is a tie and the binary64 value lies a last
  bit under it (5.445 computed as 5 + 0.145 + 0.3), the program emits the cent below. The
  statements for all inputs below are about the figures before rounding, or about the
  rounded figure of 0.
\<close>

definition mathRound :: "real \<Rightarrow> int" where
  "mathRound x = \<lfloor>x + 1 / 2\<rfloor>"

text \<open>\<open>Math.round(x * 100) / 100\<close> and \<open>Math.round(x * 10) / 10\<close>.\<close>

definition roundCents :: "real \<Rightarrow> real" where
  "roundCents x = of_int (mathRound (x * 100)) / 100"

definition roundTenth :: "real \<Rightarrow> real" where
  "roundTenth x = of_int (mathRound (x * 10)) / 10"

text \<open>
  \<open>x.toFixed(1)\<close>, as the number its decimal string denotes: the nearest multiple of
  one tenth, a tie going away from zero.
\<close>

definition toFixed1 :: "real \<Rightarrow> real" where
  "toFixed1 x =
     (if x < 0 then - (of_int \<lfloor>(- x) * 10 + 1 / 2\<rfloor> / 10)
      else of_int \<lfloor>x * 10 + 1 / 2\<rfloor> / 10)"

text \<open>\<open>netRevenue > 0 ? (x / netRevenue) * 100 : 0\<close>, the guard of every percent field.\<close>

definition percentOfNet :: "real \<Rightarrow> real \<Rightarrow> jsnum" where
  "percentOfNet x netRevenue =
     (if 0 < netRevenue then jsTimes (jsDiv x netRevenue) 100 else Num 0)"

text \<open>\<open>String.prototype.toLowerCase\<close> on ASCII letters.\<close>

definition toLowerChar :: "char \<Rightarrow> char" where
  "toLowerChar c =
     (case map_of (zip ''ABCDEFGHIJKLMNOPQRSTUVWXYZ'' ''abcdefghijklmnopqrstuvwxyz'') c of
        Some l \<Rightarrow> l
      | None \<Rightarrow> c)"

definition toLowerCase :: "string \<Rightarrow> string" where
  "toLowerCase s = map toLowerChar s"

text \<open>\<open>s.includes(pat)\<close>: \<open>pat\<close> occurs in \<open>s\<close> as a contiguous substring.\<close>

fun includesStr :: "string \<Rightarrow> string \<Rightarrow> bool" where
  "includesStr [] pat = (pat = [])"
| "includesStr (c # cs) pat = (prefix pat (c # cs) \<or> includesStr cs pat)"

text \<open>
  An order name or an override key can hold any character, so it is a list of UTF-16 code
  units; \<open>units\<close> gives the code units of an ASCII literal.
\<close>

type_synonym jsstring = "nat list"

definition units :: "string \<Rightarrow> jsstring" where
  "units s = map of_char s"

text \<open>\<open>s.replace(/^#/, '')\<close>: one leading hash sign (code unit 0x23) is removed.\<close>

fun stripHash :: "jsstring \<Rightarrow> jsstring" where
  "stripHash [] = []"
| "stripHash (c # cs) = (if c = 0x23 then cs else c # cs)"

text \<open>
  \<open>s.trim()\<close> removes white space and line terminators from both ends: tab, line feed,
  vertical tab, form feed, carriage return, space, U+00A0, U+1680, U+2000 to U+200A, U+2028,
  U+2029, U+202F, U+205F, U+3000 and U+FEFF.
\<close>

definition isSpace :: "nat \<Rightarrow> bool" where
  "isSpace u =
     (u \<in> set [0x09, 0x0A, 0x0B, 0x0C, 0x0D, 0x20, 0xA0, 0x1680, 0x2028, 0x2029, 0x202F,
                0x205F, 0x3000, 0xFEFF]
      \<or> (0x2000 \<le> u \<and> u \<le> 0x200A))"

definition trim :: "jsstring \<Rightarrow> jsstring" where
  "trim s = rev (dropWhile isSpace (rev (dropWhile isSpace s)))"

text \<open>
  \<open>a || b\<close> on values of type \<open>number | undefined\<close>: \<open>undefined\<close> and \<open>0\<close> are falsy.
\<close>

definition jsOr :: "real option \<Rightarrow> real option \<Rightarrow> real option" where
  "jsOr a b = (case a of None \<Rightarrow> b | Some c \<Rightarrow> if c \<noteq> 0 then Some c else b)"

section \<open>Cost settings\<close>

datatype ShippingMethod = Flat | PerItem | NoMethod

record ShippingSettings =
  shippingMethod :: ShippingMethod
  flatRate :: real
  perItemRate :: real

record GatewayFee =
  rate :: real
  fixedFee :: real

record OptionalGatewayFee = GatewayFee +
  enabled :: bool

record AdditionalGateway = GatewayFee +
  gatewayId :: string
  gatewayName :: string
  apiName :: string

record TransactionFeeSettings =
  quickSetup :: string
  shopifyPayments :: GatewayFee
  paypal :: OptionalGatewayFee
  stripe :: OptionalGatewayFee
  shopifySurcharge :: real
  usesShopifyPayments :: bool
  additionalGateways :: "AdditionalGateway list"

record ShippingCostEntry =
  entryOrderId :: jsstring
  entryOrderName :: jsstring
  shippingCost :: real

text \<open>The initial state of the settings in \<open>Index\<close>.\<close>

definition initialShippingSettings :: ShippingSettings where
  "initialShippingSettings = \<lparr> shippingMethod = Flat, flatRate = 5, perItemRate = 2 \<rparr>"

definition initialTransactionFeeSettings :: TransactionFeeSettings where
  "initialTransactionFeeSettings =
     \<lparr> quickSetup = ''us-basic'',
       shopifyPayments = \<lparr> rate = 29 / 10, fixedFee = 3 / 10 \<rparr>,
       paypal = \<lparr> rate = 299 / 100, fixedFee = 49 / 100, enabled = True \<rparr>,
       stripe = \<lparr> rate = 29 / 10, fixedFee = 3 / 10, enabled = False \<rparr>,
       shopifySurcharge = 2,
       usesShopifyPayments = True,
       additionalGateways = [] \<rparr>"

section \<open>The profit-by-order report\<close>

text \<open>A row of \<open>orderReport\<close>, as the \<open>profitByOrder\<close> action returns it.\<close>

record OrderRow =
  orderName :: "jsstring option"
  grossSales :: real
  rowDiscounts :: real
  shippingRevenue :: real
  itemCount :: nat
  paymentGateway :: "string option"
  shippingLineCost :: "real option"

datatype ShippingSource = Shopify | Csv | Estimate | NoSource

text \<open>
  \<open>csvShippingCostMap\<close>: every entry is stored under its own key, under the normalised key
  and under the normalised key with a hash sign in front; a later entry overwrites.
\<close>

definition normalizeName :: "jsstring \<Rightarrow> jsstring" where
  "normalizeName s = trim (stripHash s)"

definition storeEntry ::
  "(jsstring \<rightharpoonup> real) \<Rightarrow> ShippingCostEntry \<Rightarrow> (jsstring \<rightharpoonup> real)" where
  "storeEntry m e =
     (let normalized = normalizeName (entryOrderId e) in
      m(entryOrderId e \<mapsto> shippingCost e,
        normalized \<mapsto> shippingCost e,
        0x23 # normalized \<mapsto> shippingCost e))"

definition csvShippingCostMap :: "ShippingCostEntry list \<Rightarrow> (jsstring \<rightharpoonup> real)" where
  "csvShippingCostMap shippingCostData = foldl storeEntry Map.empty shippingCostData"

definition rowName :: "OrderRow \<Rightarrow> jsstring" where
  "rowName order = (case orderName order of None \<Rightarrow> [] | Some s \<Rightarrow> s)"

definition getShippingCost ::
  "ShippingSettings \<Rightarrow> ShippingCostEntry list \<Rightarrow> OrderRow \<Rightarrow> real \<times> ShippingSource" where
  "getShippingCost shippingSettings shippingCostData order =
     (case (case shippingLineCost order of
              Some c \<Rightarrow> if 0 < c then Some c else None
            | None \<Rightarrow> None) of
        Some c \<Rightarrow> (c, Shopify)
      | None \<Rightarrow>
         (let m = csvShippingCostMap shippingCostData;
              name = rowName order;
              normalizedOrderName = normalizeName name;
              csvCost = jsOr (m name)
                          (jsOr (m normalizedOrderName) (m (0x23 # normalizedOrderName)))
          in case csvCost of
               Some c \<Rightarrow> (c, Csv)
             | None \<Rightarrow>
                (case shippingMethod shippingSettings of
                   Flat \<Rightarrow> (flatRate shippingSettings, Estimate)
                 | PerItem \<Rightarrow>
                     (perItemRate shippingSettings
                        * of_nat (if itemCount order = 0 then 1 else itemCount order), Estimate)
                 | NoMethod \<Rightarrow> (0, NoSource))))"

definition getTransactionFees :: "TransactionFeeSettings \<Rightarrow> real \<Rightarrow> string option \<Rightarrow> real" where
  "getTransactionFees tfs netRevenue gateway =
     (let gatewayLower = toLowerCase (case gateway of None \<Rightarrow> [] | Some g \<Rightarrow> g);
          sp = shopifyPayments tfs;
          (r, f, surcharge) =
            (if includesStr gatewayLower ''paypal'' \<and> enabled (paypal tfs) then
               (rate (paypal tfs), fixedFee (paypal tfs),
                if \<not> usesShopifyPayments tfs then shopifySurcharge tfs else 0)
             else if includesStr gatewayLower ''stripe'' \<and> enabled (stripe tfs) then
               (rate (stripe tfs), fixedFee (stripe tfs), shopifySurcharge tfs)
             else if includesStr gatewayLower ''shopify'' \<or> includesStr gatewayLower ''shop_pay'' then
               (rate sp, fixedFee sp, 0)
             else
               (case find (\<lambda>g. includesStr gatewayLower (toLowerCase (apiName g)))
                       (additionalGateways tfs) of
                  Some g \<Rightarrow> (rate g, fixedFee g, shopifySurcharge tfs)
                | None \<Rightarrow> (rate sp, fixedFee sp, 0)))
      in netRevenue * ((r + surcharge) / 100) + f)"

record EnrichedRow =
  e_grossRevenue :: real
  e_discounts :: real
  e_netRevenue :: real
  e_cogs :: real
  e_grossProfit :: real
  e_fulfillmentCost :: real
  e_cm2 :: real
  e_margin :: jsnum

text \<open>\<open>enrichedData\<close> of \<open>ProfitByOrderReport\<close>, one row; \<open>productCostPercent\<close> is 40.\<close>

definition productCostPercent :: real where
  "productCostPercent = 40"

definition enrichOrder ::
  "ShippingSettings \<Rightarrow> ShippingCostEntry list \<Rightarrow> TransactionFeeSettings \<Rightarrow> OrderRow \<Rightarrow> EnrichedRow"
  where
  "enrichOrder shippingSettings shippingCostData tfs row =
     (let grossRevenue = grossSales row + shippingRevenue row;
          netRevenue = grossRevenue - rowDiscounts row;
          cogs = netRevenue * (productCostPercent / 100);
          grossProfit = netRevenue - cogs;
          shipCost = fst (getShippingCost shippingSettings shippingCostData row);
          transactionFees = getTransactionFees tfs netRevenue (paymentGateway row);
          fulfillmentCost = shipCost + transactionFees;
          cm2 = grossProfit - fulfillmentCost
      in \<lparr> e_grossRevenue = grossRevenue, e_discounts = rowDiscounts row,
           e_netRevenue = netRevenue, e_cogs = cogs, e_grossProfit = grossProfit,
           e_fulfillmentCost = fulfillmentCost, e_cm2 = cm2,
           e_margin = percentOfNet cm2 netRevenue \<rparr>)"

text \<open>A row of \<open>channelReport\<close>, and \<open>enrichedData\<close> of \<open>ProfitByChannelReport\<close>.\<close>

record ChannelRow =
  c_grossRevenue :: real
  c_discounts :: real
  c_orderCount :: nat

definition shippingCostPerOrder :: real where
  "shippingCostPerOrder = 5"

definition transactionFeePercent :: real where
  "transactionFeePercent = 29 / 10"

definition transactionFeeFlat :: real where
  "transactionFeeFlat = 3 / 10"

definition enrichChannel :: "ChannelRow \<Rightarrow> EnrichedRow" where
  "enrichChannel c =
     (let netRevenue = c_grossRevenue c - c_discounts c;
          cogs = netRevenue * (productCostPercent / 100);
          grossProfit = netRevenue - cogs;
          shipCost = of_nat (c_orderCount c) * shippingCostPerOrder;
          transactionFees = netRevenue * (transactionFeePercent / 100)
                              + of_nat (c_orderCount c) * transactionFeeFlat;
          fulfillmentCost = shipCost + transactionFees;
          cm2 = grossProfit - fulfillmentCost
      in \<lparr> e_grossRevenue = c_grossRevenue c, e_discounts = c_discounts c,
           e_netRevenue = netRevenue, e_cogs = cogs, e_grossProfit = grossProfit,
           e_fulfillmentCost = fulfillmentCost, e_cm2 = cm2,
           e_margin = percentOfNet cm2 netRevenue \<rparr>)"

text \<open>
  The totals row: \<open>enrichedData.reduce\<close> adds the rows up field by field, and
  \<open>totalMargin\<close> is the guarded percentage of the sums.
\<close>

definition addRow :: "EnrichedRow \<Rightarrow> EnrichedRow \<Rightarrow> EnrichedRow" where
  "addRow acc r =
     \<lparr> e_grossRevenue = e_grossRevenue acc + e_grossRevenue r,
       e_discounts = e_discounts acc + e_discounts r,
       e_netRevenue = e_netRevenue acc + e_netRevenue r,
       e_cogs = e_cogs acc + e_cogs r,
       e_grossProfit = e_grossProfit acc + e_grossProfit r,
       e_fulfillmentCost = e_fulfillmentCost acc + e_fulfillmentCost r,
       e_cm2 = e_cm2 acc + e_cm2 r,
       e_margin = e_margin acc \<rparr>"

definition zeroRow :: EnrichedRow where
  "zeroRow =
     \<lparr> e_grossRevenue = 0, e_discounts = 0, e_netRevenue = 0, e_cogs = 0, e_grossProfit = 0,
       e_fulfillmentCost = 0, e_cm2 = 0, e_margin = Num 0 \<rparr>"

definition totalsRow :: "EnrichedRow list \<Rightarrow> EnrichedRow" where
  "totalsRow rows =
     (let totals = foldl addRow zeroRow rows
      in totals\<lparr> e_margin := percentOfNet (e_cm2 totals) (e_netRevenue totals) \<rparr>)"

section \<open>Orders and line items of the feed\<close>

text \<open>
  The fields the actions read. An absent object or field (\<open>product?.id\<close>) is \<open>None\<close>; an
  amount is the value of \<open>parseFloat(amount || "0")\<close>. The creation time is kept as the
  milliseconds of \<open>new Date(createdAt).getTime()\<close>, as the calendar date at the head of the
  \<open>createdAt\<close> string (year, month, day) and as the date of \<open>toISOString()\<close>.
\<close>

record LineItem =
  li_productId :: "string option"
  li_productTitle :: "string option"
  li_productType :: "string option"
  li_tags :: "string list"
  li_vendor :: "string option"
  li_sku :: "string option"
  li_title :: "string option"
  li_variantTitle :: "string option"
  li_quantity :: nat
  li_originalTotal :: real
  li_totalDiscount :: real

record Order =
  o_id :: string
  o_createdMs :: int
  o_dayKey :: "int \<times> int \<times> int"
  o_isoDate :: "int \<times> int \<times> int"
  o_customerId :: "string option"
  o_channelName :: "string option"
  o_totalPrice :: real
  o_totalDiscounts :: real
  o_subtotalPrice :: real
  o_totalShippingPrice :: real
  o_lineItems :: "LineItem list"

text \<open>\<open>s || d\<close> on an optional string: \<open>undefined\<close> and the empty string are falsy.\<close>

definition orElse :: "string option \<Rightarrow> string \<Rightarrow> string" where
  "orElse s d = (case s of None \<Rightarrow> d | Some v \<Rightarrow> if v = [] then d else v)"

section \<open>The dashboard action\<close>

record Clock =
  startOfYear :: int
  nowMs :: int
  currentYear :: int

definition getWeekNumber :: "int \<Rightarrow> int \<Rightarrow> int" where
  "getWeekNumber startOfYearMs t =
     (let diffInMs = t - startOfYearMs;
          diffInDays = diffInMs div (1000 * 60 * 60 * 24)
      in diffInDays div 7 + 1)"

record Filters =
  f_productId :: "string option"
  f_productType :: "string option"
  f_channel :: "string option"

text \<open>\<open>x && x !== "all"\<close>.\<close>

definition hasFilter :: "string option \<Rightarrow> bool" where
  "hasFilter x = (case x of None \<Rightarrow> False | Some v \<Rightarrow> v \<noteq> [] \<and> v \<noteq> ''all'')"

definition lineItemMatches :: "Filters \<Rightarrow> LineItem \<Rightarrow> bool" where
  "lineItemMatches f lineItem =
     (let matchesProduct = (\<not> hasFilter (f_productId f) \<or> li_productId lineItem = f_productId f);
          matchesType = (\<not> hasFilter (f_productType f) \<or> li_productType lineItem = f_productType f)
      in matchesProduct \<and> matchesType)"

text \<open>
  The discount a matching line item adds to the \<open>discounts\<close> of its order in the filtered
  mode: its own discount when it has one, else the whole order discount for an order of one
  line item, else the share of the order discount in proportion to its original total.
\<close>

definition allocatedDiscount :: "Order \<Rightarrow> LineItem \<Rightarrow> real" where
  "allocatedDiscount order lineItem =
     (let orderSubtotal = o_subtotalPrice order;
          orderTotalDiscount = o_totalDiscounts order;
          lineItemCount = length (o_lineItems order);
          lineItemOriginalTotal = li_originalTotal lineItem;
          lineItemDiscount = li_totalDiscount lineItem
      in if 0 < lineItemDiscount then lineItemDiscount
         else if 0 < orderTotalDiscount \<and> 0 < orderSubtotal then
           (if lineItemCount = 1 then orderTotalDiscount
            else (let lineItemShare = lineItemOriginalTotal / (orderSubtotal + orderTotalDiscount)
                  in orderTotalDiscount * lineItemShare))
         else 0)"

record OrderFigures =
  g_grossRevenue :: real
  g_discounts :: real
  g_shippingRevenue :: real
  g_itemCount :: nat

definition addLineItem :: "Filters \<Rightarrow> Order \<Rightarrow> OrderFigures \<Rightarrow> LineItem \<Rightarrow> OrderFigures" where
  "addLineItem f order fig lineItem =
     (if lineItemMatches f lineItem then
        fig\<lparr> g_grossRevenue := g_grossRevenue fig + li_originalTotal lineItem,
             g_discounts := g_discounts fig + allocatedDiscount order lineItem,
             g_itemCount := g_itemCount fig + li_quantity lineItem \<rparr>
      else fig)"

definition orderFigures :: "Filters \<Rightarrow> Order \<Rightarrow> OrderFigures" where
  "orderFigures f order =
     (if hasFilter (f_productId f) \<or> hasFilter (f_productType f) then
        foldl (addLineItem f order)
          \<lparr> g_grossRevenue = 0, g_discounts = 0, g_shippingRevenue = 0, g_itemCount = 0 \<rparr>
          (o_lineItems order)
      else
        \<lparr> g_grossRevenue = o_subtotalPrice order + o_totalDiscounts order,
          g_discounts = o_totalDiscounts order,
          g_shippingRevenue = o_totalShippingPrice order,
          g_itemCount = sum_list (map li_quantity (o_lineItems order)) \<rparr>)"

text \<open>
  The four accumulators are JavaScript \<open>Map\<close>s: association lists in insertion order, where
  \<open>set\<close> replaces the value of a present key in place and appends a new key.
\<close>

record PeriodAcc =
  a_grossRevenue :: real
  a_discounts :: real
  a_orderCount :: nat
  a_shippingRevenue :: real
  a_itemCount :: nat

definition zeroAcc :: PeriodAcc where
  "zeroAcc = \<lparr> a_grossRevenue = 0, a_discounts = 0, a_orderCount = 0, a_shippingRevenue = 0,
               a_itemCount = 0 \<rparr>"

definition getAcc :: "('k \<times> PeriodAcc) list \<Rightarrow> 'k \<Rightarrow> PeriodAcc" where
  "getAcc m k = (case map_of m k of None \<Rightarrow> zeroAcc | Some a \<Rightarrow> a)"

definition addOrderTo :: "('k \<times> PeriodAcc) list \<Rightarrow> 'k \<Rightarrow> OrderFigures \<Rightarrow> ('k \<times> PeriodAcc) list"
  where
  "addOrderTo m k fig =
     (let existing = getAcc m k
      in AList.update k
           \<lparr> a_grossRevenue = a_grossRevenue existing + g_grossRevenue fig,
             a_discounts = a_discounts existing + g_discounts fig,
             a_orderCount = a_orderCount existing + 1,
             a_shippingRevenue = a_shippingRevenue existing + g_shippingRevenue fig,
             a_itemCount = a_itemCount existing + g_itemCount fig \<rparr> m)"

record DashState =
  weeklyData :: "(int \<times> PeriodAcc) list"
  dailyData :: "((int \<times> int \<times> int) \<times> PeriodAcc) list"
  monthlyData :: "((int \<times> int) \<times> PeriodAcc) list"
  quarterlyData :: "((int \<times> int) \<times> PeriodAcc) list"
  st_totalShippingRevenue :: real
  st_totalItemCount :: nat

definition weekOf :: "Clock \<Rightarrow> Order \<Rightarrow> int" where
  "weekOf clk order = getWeekNumber (startOfYear clk) (o_createdMs order)"

definition isAccumulated :: "Filters \<Rightarrow> Order \<Rightarrow> bool" where
  "isAccumulated f order =
     (0 < g_grossRevenue (orderFigures f order) \<or> 0 < g_discounts (orderFigures f order))"

definition accumulateOrder :: "Clock \<Rightarrow> Filters \<Rightarrow> DashState \<Rightarrow> Order \<Rightarrow> DashState" where
  "accumulateOrder clk f st order =
     (let weekNum = weekOf clk order;
          dayKey = o_dayKey order;
          (year, month, day) = dayKey;
          monthKey = (year, month);
          quarterKey = (year, (month - 1) div 3 + 1);
          fig = orderFigures f order
      in if 0 < g_grossRevenue fig \<or> 0 < g_discounts fig then
           \<lparr> weeklyData = addOrderTo (weeklyData st) weekNum fig,
             dailyData = addOrderTo (dailyData st) dayKey fig,
             monthlyData = addOrderTo (monthlyData st) monthKey fig,
             quarterlyData = addOrderTo (quarterlyData st) quarterKey fig,
             st_totalShippingRevenue = st_totalShippingRevenue st + g_shippingRevenue fig,
             st_totalItemCount = st_totalItemCount st + g_itemCount fig \<rparr>
         else st)"

definition maxWeek :: "Clock \<Rightarrow> int" where
  "maxWeek clk =
     (if currentYear clk = 2025 then getWeekNumber (startOfYear clk) (nowMs clk) else 53)"

definition seedWeeks :: "int \<Rightarrow> (int \<times> PeriodAcc) list" where
  "seedWeeks n = foldl (\<lambda>m i. AList.update i zeroAcc m) [] [1..n]"

definition initialState :: "Clock \<Rightarrow> DashState" where
  "initialState clk =
     \<lparr> weeklyData = seedWeeks (maxWeek clk), dailyData = [], monthlyData = [],
       quarterlyData = [], st_totalShippingRevenue = 0, st_totalItemCount = 0 \<rparr>"

definition channelOf :: "Order \<Rightarrow> string" where
  "channelOf order = orElse (o_channelName order) ''Online Store''"

definition selectChannel :: "Filters \<Rightarrow> Order list \<Rightarrow> Order list" where
  "selectChannel f allOrders =
     (if hasFilter (f_channel f) then filter (\<lambda>order. Some (channelOf order) = f_channel f) allOrders
      else allOrders)"

definition accumulateAll :: "Clock \<Rightarrow> Filters \<Rightarrow> Order list \<Rightarrow> DashState" where
  "accumulateAll clk f allOrders =
     foldl (accumulateOrder clk f) (initialState clk) (selectChannel f allOrders)"

text \<open>The cost assumptions of the action and the rows of \<open>chartData\<close>.\<close>

definition costPercent :: real where
  "costPercent = 40"

definition txFeePercent :: real where
  "txFeePercent = 29 / 10"

definition txFeeFlat :: real where
  "txFeeFlat = 3 / 10"

record ChartRow =
  week :: int
  r_grossRevenue :: real
  r_discounts :: real
  r_netRevenue :: real
  r_grossProfit :: real
  r_cm2 :: real
  r_orderCount :: nat
  r_shippingRevenue :: real
  r_itemCount :: nat

definition periodCogs :: "PeriodAcc \<Rightarrow> real" where
  "periodCogs d = (a_grossRevenue d - a_discounts d) * (costPercent / 100)"

definition periodNetRev :: "PeriodAcc \<Rightarrow> real" where
  "periodNetRev d = a_grossRevenue d - a_discounts d + a_shippingRevenue d"

definition periodFulfill :: "PeriodAcc \<Rightarrow> real" where
  "periodFulfill d =
     of_nat (a_orderCount d) * shippingCostPerOrder + periodNetRev d * txFeePercent / 100
       + of_nat (a_orderCount d) * txFeeFlat"

definition chartRow :: "int \<times> PeriodAcc \<Rightarrow> ChartRow" where
  "chartRow entry =
     (let w = fst entry; d = snd entry;
          netRev = periodNetRev d;
          cogs = periodCogs d;
          gp = netRev - cogs;
          fulfill = periodFulfill d
      in \<lparr> week = w,
           r_grossRevenue = roundCents (a_grossRevenue d),
           r_discounts = roundCents (a_discounts d),
           r_netRevenue = roundCents netRev,
           r_grossProfit = roundCents gp,
           r_cm2 = roundCents (gp - fulfill),
           r_orderCount = a_orderCount d,
           r_shippingRevenue = roundCents (a_shippingRevenue d),
           r_itemCount = a_itemCount d \<rparr>)"

definition chartData :: "DashState \<Rightarrow> ChartRow list" where
  "chartData st = sort_key week (map chartRow (weeklyData st))"

text \<open>Customer spend and the LTV buckets.\<close>

definition spendKey :: "Order \<Rightarrow> string" where
  "spendKey order = orElse (o_customerId order) ''guest''"

definition addSpend :: "(string \<times> real) list \<Rightarrow> Order \<Rightarrow> (string \<times> real) list" where
  "addSpend m order =
     (let customerId = spendKey order;
          before = (case map_of m customerId of None \<Rightarrow> 0 | Some v \<Rightarrow> v)
      in AList.update customerId (before + o_totalPrice order) m)"

definition customerSpend :: "Order list \<Rightarrow> (string \<times> real) list" where
  "customerSpend allOrders = foldl addSpend [] allOrders"

record LTVBucket =
  b_range :: string
  b_count :: nat
  b_min :: real
  b_max :: "real option"

definition emptyBuckets :: "LTVBucket list" where
  "emptyBuckets =
     [\<lparr> b_range = ''$0-25'', b_count = 0, b_min = 0, b_max = Some 25 \<rparr>,
      \<lparr> b_range = ''$25-50'', b_count = 0, b_min = 25, b_max = Some 50 \<rparr>,
      \<lparr> b_range = ''$50-100'', b_count = 0, b_min = 50, b_max = Some 100 \<rparr>,
      \<lparr> b_range = ''$100-200'', b_count = 0, b_min = 100, b_max = Some 200 \<rparr>,
      \<lparr> b_range = ''$200-500'', b_count = 0, b_min = 200, b_max = Some 500 \<rparr>,
      \<lparr> b_range = ''$500-1K'', b_count = 0, b_min = 500, b_max = Some 1000 \<rparr>,
      \<lparr> b_range = ''$1K+'', b_count = 0, b_min = 1000, b_max = None \<rparr>]"

fun countSpend :: "real \<Rightarrow> LTVBucket list \<Rightarrow> LTVBucket list" where
  "countSpend spend [] = []"
| "countSpend spend (bucket # rest) =
     (if b_min bucket \<le> spend \<and> (case b_max bucket of None \<Rightarrow> True | Some mx \<Rightarrow> spend < mx)
      then bucket\<lparr> b_count := b_count bucket + 1 \<rparr> # rest
      else bucket # countSpend spend rest)"

definition ltvBuckets :: "Order list \<Rightarrow> LTVBucket list" where
  "ltvBuckets allOrders =
     foldl (\<lambda>buckets entry. countSpend (snd entry) buckets) emptyBuckets (customerSpend allOrders)"

text \<open>The first order of every customer; a guest order has a key of its own.\<close>

record FirstOrder =
  fo_week :: int
  fo_date :: "int \<times> int \<times> int"
  fo_discount :: real

definition firstOrderKey :: "Order \<Rightarrow> string" where
  "firstOrderKey order = orElse (o_customerId order) (''guest-'' @ o_id order)"

definition dateBefore :: "int \<times> int \<times> int \<Rightarrow> int \<times> int \<times> int \<Rightarrow> bool" where
  "dateBefore a b =
     (case (a, b) of
        ((y1, m1, d1), (y2, m2, d2)) \<Rightarrow>
          y1 < y2 \<or> (y1 = y2 \<and> (m1 < m2 \<or> (m1 = m2 \<and> d1 < d2))))"

definition addFirstOrder ::
  "Clock \<Rightarrow> (string \<times> FirstOrder) list \<Rightarrow> Order \<Rightarrow> (string \<times> FirstOrder) list" where
  "addFirstOrder clk m order =
     (let customerId = firstOrderKey order;
          entry = \<lparr> fo_week = weekOf clk order, fo_date = o_isoDate order,
                    fo_discount = o_totalDiscounts order \<rparr>
      in case map_of m customerId of
           None \<Rightarrow> AList.update customerId entry m
         | Some existing \<Rightarrow>
             if dateBefore (o_isoDate order) (fo_date existing)
             then AList.update customerId entry m else m)"

definition customerFirstOrder :: "Clock \<Rightarrow> Order list \<Rightarrow> (string \<times> FirstOrder) list" where
  "customerFirstOrder clk allOrders = foldl (addFirstOrder clk) [] allOrders"

text \<open>The part of the response that the claims are about.\<close>

record DashboardData =
  d_chartData :: "ChartRow list"
  d_totalRevenue :: real
  d_totalDiscounts :: real
  d_totalOrders :: nat
  d_totalShippingRevenue :: real
  d_totalItemCount :: nat
  d_totalCustomers :: nat
  d_ltvBuckets :: "LTVBucket list"

definition dashboard :: "Clock \<Rightarrow> Filters \<Rightarrow> Order list \<Rightarrow> DashboardData" where
  "dashboard clk f fetched =
     (let allOrders = selectChannel f fetched;
          st = foldl (accumulateOrder clk f) (initialState clk) allOrders;
          rows = chartData st;
          totalRevenue = foldl (\<lambda>s w. s + r_grossRevenue w) 0 rows;
          totalDiscounts = foldl (\<lambda>s w. s + r_discounts w) 0 rows;
          totalOrders = foldl (\<lambda>s w. s + r_orderCount w) 0 rows
      in \<lparr> d_chartData = rows,
           d_totalRevenue = roundCents totalRevenue,
           d_totalDiscounts = roundCents totalDiscounts,
           d_totalOrders = totalOrders,
           d_totalShippingRevenue = roundCents (st_totalShippingRevenue st),
           d_totalItemCount = st_totalItemCount st,
           d_totalCustomers = length (customerSpend allOrders),
           d_ltvBuckets = ltvBuckets allOrders \<rparr>)"

text \<open>The headline metrics that \<open>Index\<close> derives from the response.\<close>

record IndexMetrics =
  m_grossRevenue :: real
  m_netRevenue :: real
  m_productCost :: real
  m_grossProfit :: real
  m_fulfillmentCost :: real
  m_cm2 :: real
  m_cm2Percent :: jsnum

definition indexMetrics :: "DashboardData \<Rightarrow> IndexMetrics" where
  "indexMetrics dd =
     (let totalRevenue = d_totalRevenue dd;
          totalDiscounts = d_totalDiscounts dd;
          totalOrders = d_totalOrders dd;
          netRevenue = totalRevenue - totalDiscounts + d_totalShippingRevenue dd;
          productCost = (totalRevenue - totalDiscounts) * (productCostPercent / 100);
          shipCost = of_nat totalOrders * shippingCostPerOrder;
          transactionFees = netRevenue * (transactionFeePercent / 100)
                              + of_nat totalOrders * transactionFeeFlat;
          fulfillmentCost = shipCost + transactionFees;
          grossProfit = netRevenue - productCost;
          cm2 = grossProfit - fulfillmentCost
      in \<lparr> m_grossRevenue = totalRevenue, m_netRevenue = netRevenue, m_productCost = productCost,
           m_grossProfit = grossProfit, m_fulfillmentCost = fulfillmentCost, m_cm2 = cm2,
           m_cm2Percent = percentOfNet cm2 netRevenue \<rparr>)"

section \<open>The profit-by-product, product-type, vendor and SKU actions\<close>

text \<open>
  The cost settings of these actions are fractions: \<open>cogsPercent = 0.4\<close>, and the fee share
  that the source calls \<open>txFeePercent = 0.029\<close> there.
\<close>

definition cogsPercent :: real where
  "cogsPercent = 4 / 10"

definition txFeeFraction :: real where
  "txFeeFraction = 29 / 1000"

record ProductAcc =
  p_title :: string
  p_productType :: string
  p_tags :: "string list"
  p_grossRevenue :: real
  p_discounts :: real
  p_orderCount :: nat
  p_itemCount :: nat

text \<open>
  \<open>productData\<close> with \<open>orderProductIds\<close>, the orders already counted for a product. A
  missing set is the empty set.
\<close>

record ProductState =
  productData :: "(string \<times> ProductAcc) list"
  orderProductIds :: "string \<Rightarrow> string set"

text \<open>The two \<open>continue\<close> statements: a line item that a filter rejects is skipped.\<close>

definition rejectedByFilters :: "string option \<Rightarrow> string option \<Rightarrow> LineItem \<Rightarrow> bool" where
  "rejectedByFilters productTypeFilter productTagFilter lineItem =
     ((case productTypeFilter of
         None \<Rightarrow> False
       | Some v \<Rightarrow> v \<noteq> [] \<and> v \<noteq> ''all'' \<and> orElse (li_productType lineItem) [] \<noteq> v)
      \<or> (case productTagFilter of
            None \<Rightarrow> False
          | Some v \<Rightarrow> v \<noteq> [] \<and> v \<noteq> ''all'' \<and> v \<notin> set (li_tags lineItem)))"

definition addProductLine ::
  "string option \<Rightarrow> string option \<Rightarrow> string \<Rightarrow> ProductState \<Rightarrow> LineItem \<Rightarrow> ProductState" where
  "addProductLine productTypeFilter productTagFilter orderId st lineItem =
     (if rejectedByFilters productTypeFilter productTagFilter lineItem then st
      else case li_productId lineItem of
        None \<Rightarrow> st
      | Some productId \<Rightarrow>
          if productId = [] then st
          else
            (let existing =
                   (case map_of (productData st) productId of
                      Some d \<Rightarrow> d
                    | None \<Rightarrow>
                        \<lparr> p_title = orElse (li_productTitle lineItem) ''Unknown Product'',
                          p_productType = orElse (li_productType lineItem) [],
                          p_tags = li_tags lineItem,
                          p_grossRevenue = 0, p_discounts = 0, p_orderCount = 0,
                          p_itemCount = 0 \<rparr>);
                 added = existing
                   \<lparr> p_grossRevenue := p_grossRevenue existing + li_originalTotal lineItem,
                     p_discounts := p_discounts existing + li_totalDiscount lineItem,
                     p_itemCount := p_itemCount existing + li_quantity lineItem \<rparr>;
                 seen = orderProductIds st productId;
                 counted = (if orderId \<in> seen then added
                            else added\<lparr> p_orderCount := p_orderCount added + 1 \<rparr>)
             in \<lparr> productData = AList.update productId counted (productData st),
                  orderProductIds = (orderProductIds st)(productId := insert orderId seen) \<rparr>))"

definition addProductOrder ::
  "string option \<Rightarrow> string option \<Rightarrow> ProductState \<Rightarrow> Order \<Rightarrow> ProductState" where
  "addProductOrder productTypeFilter productTagFilter st order =
     foldl (addProductLine productTypeFilter productTagFilter (o_id order)) st (o_lineItems order)"

definition profitByProduct ::
  "string option \<Rightarrow> string option \<Rightarrow> Order list \<Rightarrow> ProductState" where
  "profitByProduct productTypeFilter productTagFilter allOrders =
     foldl (addProductOrder productTypeFilter productTagFilter)
       \<lparr> productData = [], orderProductIds = (\<lambda>_. {}) \<rparr> allOrders"

record ProfitRow =
  row_key :: string
  row_grossRevenue :: real
  row_discounts :: real
  row_netRevenue :: real
  row_cogs :: real
  row_grossProfit :: real
  row_fulfillmentCost :: real
  row_cm2 :: real
  row_orderCount :: nat

text \<open>
  The figures that the callback of a report computes for a bucket, before the row rounds
  them to cents.
\<close>

record Costs =
  k_netRevenue :: real
  k_cogs :: real
  k_grossProfit :: real
  k_fulfillmentCost :: real
  k_cm2 :: real

definition productCosts :: "ProductAcc \<Rightarrow> Costs" where
  "productCosts d =
     (let netRevenue = p_grossRevenue d - p_discounts d;
          cogs = netRevenue * cogsPercent;
          grossProfit = netRevenue - cogs;
          fulfillmentCost = of_nat (p_orderCount d) * shippingCostPerOrder
                              + netRevenue * txFeeFraction + of_nat (p_orderCount d) * txFeeFlat;
          cm2 = grossProfit - fulfillmentCost
      in \<lparr> k_netRevenue = netRevenue, k_cogs = cogs, k_grossProfit = grossProfit,
           k_fulfillmentCost = fulfillmentCost, k_cm2 = cm2 \<rparr>)"

definition productRow :: "string \<times> ProductAcc \<Rightarrow> ProfitRow" where
  "productRow entry =
     (let productId = fst entry; d = snd entry; c = productCosts d
      in \<lparr> row_key = productId,
           row_grossRevenue = roundCents (p_grossRevenue d),
           row_discounts = roundCents (p_discounts d),
           row_netRevenue = roundCents (k_netRevenue c),
           row_cogs = roundCents (k_cogs c),
           row_grossProfit = roundCents (k_grossProfit c),
           row_fulfillmentCost = roundCents (k_fulfillmentCost c),
           row_cm2 = roundCents (k_cm2 c),
           row_orderCount = p_orderCount d \<rparr>)"

text \<open>\<open>sort((a, b) => b.netRevenue - a.netRevenue)\<close>: a stable sort, largest first.\<close>

definition productReport :: "ProductState \<Rightarrow> ProfitRow list" where
  "productReport st = sort_key (\<lambda>r. - row_netRevenue r) (map productRow (productData st))"

text \<open>The accumulators by product type and by vendor have the same shape.\<close>

record GroupAcc =
  t_grossRevenue :: real
  t_discounts :: real
  t_orderCount :: nat
  t_products :: "string set"

record GroupState =
  groupData :: "(string \<times> GroupAcc) list"
  orderGroupIds :: "string \<Rightarrow> string set"

definition addGroupLine ::
  "(LineItem \<Rightarrow> string) \<Rightarrow> string \<Rightarrow> GroupState \<Rightarrow> LineItem \<Rightarrow> GroupState" where
  "addGroupLine keyOf orderId st lineItem =
     (let k = keyOf lineItem;
          existing =
            (case map_of (groupData st) k of
               Some d \<Rightarrow> d
             | None \<Rightarrow> \<lparr> t_grossRevenue = 0, t_discounts = 0, t_orderCount = 0,
                          t_products = {} \<rparr>);
          added = existing
            \<lparr> t_grossRevenue := t_grossRevenue existing + li_originalTotal lineItem,
              t_discounts := t_discounts existing + li_totalDiscount lineItem,
              t_products :=
                (case li_productId lineItem of
                   None \<Rightarrow> t_products existing
                 | Some productId \<Rightarrow>
                     if productId = [] then t_products existing
                     else insert productId (t_products existing)) \<rparr>;
          seen = orderGroupIds st k;
          counted = (if orderId \<in> seen then added
                     else added\<lparr> t_orderCount := t_orderCount added + 1 \<rparr>)
      in \<lparr> groupData = AList.update k counted (groupData st),
           orderGroupIds = (orderGroupIds st)(k := insert orderId seen) \<rparr>)"

definition addGroupOrder :: "(LineItem \<Rightarrow> string) \<Rightarrow> GroupState \<Rightarrow> Order \<Rightarrow> GroupState" where
  "addGroupOrder keyOf st order = foldl (addGroupLine keyOf (o_id order)) st (o_lineItems order)"

definition productTypeOf :: "LineItem \<Rightarrow> string" where
  "productTypeOf lineItem = orElse (li_productType lineItem) []"

definition vendorOf :: "LineItem \<Rightarrow> string" where
  "vendorOf lineItem = orElse (li_vendor lineItem) []"

definition profitByProductType :: "Order list \<Rightarrow> GroupState" where
  "profitByProductType allOrders =
     foldl (addGroupOrder productTypeOf) \<lparr> groupData = [], orderGroupIds = (\<lambda>_. {}) \<rparr> allOrders"

definition profitByVendor :: "Order list \<Rightarrow> GroupState" where
  "profitByVendor allOrders =
     foldl (addGroupOrder vendorOf) \<lparr> groupData = [], orderGroupIds = (\<lambda>_. {}) \<rparr> allOrders"

text \<open>The rows of \<open>productTypeReport\<close> and of \<open>vendorReport\<close> are computed alike.\<close>

definition groupCosts :: "GroupAcc \<Rightarrow> Costs" where
  "groupCosts d =
     (let netRevenue = t_grossRevenue d - t_discounts d;
          cogs = netRevenue * cogsPercent;
          grossProfit = netRevenue - cogs;
          fulfillmentCost = of_nat (t_orderCount d) * shippingCostPerOrder
                              + netRevenue * txFeeFraction + of_nat (t_orderCount d) * txFeeFlat;
          cm2 = grossProfit - fulfillmentCost
      in \<lparr> k_netRevenue = netRevenue, k_cogs = cogs, k_grossProfit = grossProfit,
           k_fulfillmentCost = fulfillmentCost, k_cm2 = cm2 \<rparr>)"

definition groupRow :: "string \<times> GroupAcc \<Rightarrow> ProfitRow" where
  "groupRow entry =
     (let k = fst entry; d = snd entry; c = groupCosts d
      in \<lparr> row_key = k,
           row_grossRevenue = roundCents (t_grossRevenue d),
           row_discounts = roundCents (t_discounts d),
           row_netRevenue = roundCents (k_netRevenue c),
           row_cogs = roundCents (k_cogs c),
           row_grossProfit = roundCents (k_grossProfit c),
           row_fulfillmentCost = roundCents (k_fulfillmentCost c),
           row_cm2 = roundCents (k_cm2 c),
           row_orderCount = t_orderCount d \<rparr>)"

definition productTypeReport :: "Order list \<Rightarrow> ProfitRow list" where
  "productTypeReport allOrders =
     sort_key (\<lambda>r. - row_netRevenue r) (map groupRow (groupData (profitByProductType allOrders)))"

definition vendorReport :: "Order list \<Rightarrow> ProfitRow list" where
  "vendorReport allOrders =
     sort_key (\<lambda>r. - row_netRevenue r) (map groupRow (groupData (profitByVendor allOrders)))"

text \<open>The SKU accumulator has a quantity and no order count.\<close>

record SkuAcc =
  s_sku :: string
  s_title :: string
  s_grossRevenue :: real
  s_discounts :: real
  s_quantity :: nat

definition skuTitle :: "LineItem \<Rightarrow> string" where
  "skuTitle lineItem =
     orElse (li_productTitle lineItem) (orElse (li_title lineItem) ''Unknown'')
       @ (case li_variantTitle lineItem of
            None \<Rightarrow> []
          | Some v \<Rightarrow> if v = [] then [] else '' - '' @ v)"

definition addSkuLine :: "(string \<times> SkuAcc) list \<Rightarrow> LineItem \<Rightarrow> (string \<times> SkuAcc) list" where
  "addSkuLine skuData lineItem =
     (let sku = orElse (li_sku lineItem) [];
          existing =
            (case map_of skuData sku of
               Some d \<Rightarrow> d
             | None \<Rightarrow> \<lparr> s_sku = sku, s_title = skuTitle lineItem, s_grossRevenue = 0,
                          s_discounts = 0, s_quantity = 0 \<rparr>)
      in AList.update sku
           (existing\<lparr> s_grossRevenue := s_grossRevenue existing + li_originalTotal lineItem,
                      s_discounts := s_discounts existing + li_totalDiscount lineItem,
                      s_quantity := s_quantity existing + li_quantity lineItem \<rparr>)
           skuData)"

definition profitBySKU :: "Order list \<Rightarrow> (string \<times> SkuAcc) list" where
  "profitBySKU allOrders =
     foldl (\<lambda>skuData order. foldl addSkuLine skuData (o_lineItems order)) [] allOrders"

record SkuRow =
  sku_sku :: string
  sku_title :: string
  sku_grossRevenue :: real
  sku_discounts :: real
  sku_netRevenue :: real
  sku_cogs :: real
  sku_grossProfit :: real
  sku_fulfillmentCost :: real
  sku_cm2 :: real
  sku_quantity :: nat

definition skuCosts :: "SkuAcc \<Rightarrow> Costs" where
  "skuCosts d =
     (let netRevenue = s_grossRevenue d - s_discounts d;
          cogs = netRevenue * cogsPercent;
          grossProfit = netRevenue - cogs;
          fulfillmentCost = of_nat (s_quantity d) * 2;
          cm2 = grossProfit - fulfillmentCost
      in \<lparr> k_netRevenue = netRevenue, k_cogs = cogs, k_grossProfit = grossProfit,
           k_fulfillmentCost = fulfillmentCost, k_cm2 = cm2 \<rparr>)"

definition skuRow :: "SkuAcc \<Rightarrow> SkuRow" where
  "skuRow d =
     (let c = skuCosts d
      in \<lparr> sku_sku = s_sku d, sku_title = s_title d,
           sku_grossRevenue = roundCents (s_grossRevenue d),
           sku_discounts = roundCents (s_discounts d),
           sku_netRevenue = roundCents (k_netRevenue c),
           sku_cogs = roundCents (k_cogs c),
           sku_grossProfit = roundCents (k_grossProfit c),
           sku_fulfillmentCost = roundCents (k_fulfillmentCost c),
           sku_cm2 = roundCents (k_cm2 c),
           sku_quantity = s_quantity d \<rparr>)"

definition skuReport :: "Order list \<Rightarrow> SkuRow list" where
  "skuReport allOrders =
     sort_key (\<lambda>r. - sku_netRevenue r) (map (\<lambda>entry. skuRow (snd entry)) (profitBySKU allOrders))"

text \<open>The order count that a report shows for a key; a key with no bucket has none.\<close>

definition productOrderCount :: "ProductState \<Rightarrow> string \<Rightarrow> nat" where
  "productOrderCount st k = (case map_of (productData st) k of None \<Rightarrow> 0 | Some d \<Rightarrow> p_orderCount d)"

definition groupOrderCount :: "GroupState \<Rightarrow> string \<Rightarrow> nat" where
  "groupOrderCount st k = (case map_of (groupData st) k of None \<Rightarrow> 0 | Some d \<Rightarrow> t_orderCount d)"

text \<open>A line item counts for a product when no filter rejects it and it names the product.\<close>

definition countsForProduct :: "string option \<Rightarrow> string option \<Rightarrow> string \<Rightarrow> LineItem \<Rightarrow> bool" where
  "countsForProduct productTypeFilter productTagFilter k lineItem =
     (\<not> rejectedByFilters productTypeFilter productTagFilter lineItem
      \<and> li_productId lineItem = Some k \<and> k \<noteq> [])"

text \<open>The invariant of the two loops: the order count of a key is the size of its set.\<close>

definition productInv :: "ProductState \<Rightarrow> bool" where
  "productInv st = (\<forall>k. finite (orderProductIds st k)
                       \<and> productOrderCount st k = card (orderProductIds st k))"

definition groupInv :: "GroupState \<Rightarrow> bool" where
  "groupInv st = (\<forall>k. finite (orderGroupIds st k)
                     \<and> groupOrderCount st k = card (orderGroupIds st k))"

section \<open>The other period charts of the dashboard\<close>

text \<open>
  \<open>dailyChartData\<close>, \<open>monthlyChartData\<close> and \<open>quarterlyChartData\<close> compute a row from an
  accumulator as \<open>chartData\<close> does and sort by the key; the order of the date keys
  (year, month, day) is the order of the ISO strings.
\<close>

record 'k PeriodRow =
  pr_key :: 'k
  pr_grossRevenue :: real
  pr_discounts :: real
  pr_netRevenue :: real
  pr_grossProfit :: real
  pr_cm2 :: real
  pr_orderCount :: nat

definition periodRow :: "'k \<times> PeriodAcc \<Rightarrow> 'k PeriodRow" where
  "periodRow entry =
     (let k = fst entry; d = snd entry;
          netRev = periodNetRev d;
          cogs = periodCogs d;
          gp = netRev - cogs;
          fulfill = periodFulfill d
      in \<lparr> pr_key = k,
           pr_grossRevenue = roundCents (a_grossRevenue d),
           pr_discounts = roundCents (a_discounts d),
           pr_netRevenue = roundCents netRev,
           pr_grossProfit = roundCents gp,
           pr_cm2 = roundCents (gp - fulfill),
           pr_orderCount = a_orderCount d \<rparr>)"

definition dailyChartData :: "DashState \<Rightarrow> (int \<times> int \<times> int) PeriodRow list" where
  "dailyChartData st = sort_key pr_key (map periodRow (dailyData st))"

definition monthlyChartData :: "DashState \<Rightarrow> (int \<times> int) PeriodRow list" where
  "monthlyChartData st = sort_key pr_key (map periodRow (monthlyData st))"

definition quarterlyChartData :: "DashState \<Rightarrow> (int \<times> int) PeriodRow list" where
  "quarterlyChartData st = sort_key pr_key (map periodRow (quarterlyData st))"

section \<open>The profit-by-order action and the report with fixed costs\<close>

text \<open>The fields of an order that the \<open>profitByOrder\<close> action reads, and the row it returns.\<close>

record OrderNode =
  n_name :: "jsstring option"
  n_subtotalPrice :: real
  n_totalDiscounts :: real
  n_totalShippingPrice :: real
  n_quantities :: "nat list"
  n_paymentGatewayNames :: "string list"

definition orderGateway :: "OrderNode \<Rightarrow> string" where
  "orderGateway order =
     orElse (case n_paymentGatewayNames order of [] \<Rightarrow> None | g # _ \<Rightarrow> Some g) ''unknown''"

definition orderReportRow :: "OrderNode \<Rightarrow> OrderRow" where
  "orderReportRow order =
     (let subtotal = n_subtotalPrice order;
          discounts = n_totalDiscounts order;
          shipping = n_totalShippingPrice order;
          itemCount = sum_list (n_quantities order);
          grossSales = subtotal + discounts
      in \<lparr> orderName = n_name order,
           grossSales = roundCents grossSales,
           rowDiscounts = roundCents discounts,
           shippingRevenue = roundCents shipping,
           itemCount = itemCount,
           paymentGateway = Some (orderGateway order),
           shippingLineCost = None \<rparr>)"

text \<open>
  \<open>enrichedData\<close> of the \<open>ProfitByOrderReport\<close> component that takes no settings: the four
  cost assumptions are constants of the component.
\<close>

definition enrichOrderFixed :: "OrderRow \<Rightarrow> EnrichedRow" where
  "enrichOrderFixed row =
     (let grossRevenue = grossSales row + shippingRevenue row;
          netRevenue = grossRevenue - rowDiscounts row;
          cogs = netRevenue * (productCostPercent / 100);
          grossProfit = netRevenue - cogs;
          shipCost = shippingCostPerOrder;
          transactionFees = netRevenue * (transactionFeePercent / 100) + transactionFeeFlat;
          fulfillmentCost = shipCost + transactionFees;
          cm2 = grossProfit - fulfillmentCost
      in \<lparr> e_grossRevenue = grossRevenue, e_discounts = rowDiscounts row,
           e_netRevenue = netRevenue, e_cogs = cogs, e_grossProfit = grossProfit,
           e_fulfillmentCost = fulfillmentCost, e_cm2 = cm2,
           e_margin = percentOfNet cm2 netRevenue \<rparr>)"

section \<open>The P&L report\<close>

text \<open>A period of \<open>plData\<close>, the cost settings of \<open>PLReport\<close> and their initial state.\<close>

record PLPeriod =
  pl_grossSales :: real
  pl_discounts :: real
  pl_shippingRevenue :: real
  pl_orderCount :: nat
  pl_itemCount :: nat

datatype PLShippingMethod = PLFlat | PLPerItem

record PLSettings =
  pls_productCostPercent :: real
  pls_shippingCostMethod :: PLShippingMethod
  pls_flatShippingCost :: real
  pls_perItemShippingCost :: real
  pls_transactionFeePercent :: real
  pls_transactionFeeFlat :: real
  pls_adSpend :: real
  pls_opex :: real

definition initialPLSettings :: PLSettings where
  "initialPLSettings =
     \<lparr> pls_productCostPercent = 40, pls_shippingCostMethod = PLFlat, pls_flatShippingCost = 5,
       pls_perItemShippingCost = 2, pls_transactionFeePercent = 29 / 10,
       pls_transactionFeeFlat = 3 / 10, pls_adSpend = 0, pls_opex = 0 \<rparr>"

text \<open>The figures of a period before rounding; \<open>periods\<close> is \<open>plData.length\<close>.\<close>

record PLFigures =
  plf_grossRevenue :: real
  plf_returns :: real
  plf_netRevenue :: real
  plf_cogs :: real
  plf_grossProfit :: real
  plf_shippingCost :: real
  plf_transactionFees :: real
  plf_fulfillmentCost :: real
  plf_cm2 :: real
  plf_adSpend :: real
  plf_cm3 :: real
  plf_opex :: real
  plf_netProfit :: real

definition plFigures :: "PLSettings \<Rightarrow> real \<Rightarrow> nat \<Rightarrow> PLPeriod \<Rightarrow> PLFigures" where
  "plFigures cfg totalRefunds periods m =
     (let share = of_nat (if periods = 0 then 1 else periods);
          grossRevenue = pl_grossSales m + pl_shippingRevenue m;
          returnsPerPeriod = totalRefunds / share;
          netRevenue = grossRevenue - pl_discounts m - returnsPerPeriod;
          cogs = (pl_grossSales m - pl_discounts m) * (pls_productCostPercent cfg / 100);
          grossProfit = netRevenue - cogs;
          shipCost = (case pls_shippingCostMethod cfg of
                        PLFlat \<Rightarrow> of_nat (pl_orderCount m) * pls_flatShippingCost cfg
                      | PLPerItem \<Rightarrow> of_nat (pl_itemCount m) * pls_perItemShippingCost cfg);
          transactionFees = netRevenue * (pls_transactionFeePercent cfg / 100)
                              + of_nat (pl_orderCount m) * pls_transactionFeeFlat cfg;
          fulfillmentCost = shipCost + transactionFees;
          cm2 = grossProfit - fulfillmentCost;
          adSpendPerPeriod = pls_adSpend cfg / share;
          cm3 = cm2 - adSpendPerPeriod;
          opexPerPeriod = pls_opex cfg / share;
          netProfit = cm3 - opexPerPeriod
      in \<lparr> plf_grossRevenue = grossRevenue, plf_returns = returnsPerPeriod,
           plf_netRevenue = netRevenue, plf_cogs = cogs, plf_grossProfit = grossProfit,
           plf_shippingCost = shipCost, plf_transactionFees = transactionFees,
           plf_fulfillmentCost = fulfillmentCost, plf_cm2 = cm2, plf_adSpend = adSpendPerPeriod,
           plf_cm3 = cm3, plf_opex = opexPerPeriod, plf_netProfit = netProfit \<rparr>)"

text \<open>\<open>Math.round(p * 10) / 10\<close> on a percentage.\<close>

definition jsRoundTenth :: "jsnum \<Rightarrow> jsnum" where
  "jsRoundTenth p = (case p of Num x \<Rightarrow> Num (roundTenth x) | other \<Rightarrow> other)"

record PLRow =
  plr_figures :: PLFigures
  plr_grossProfitPercent :: jsnum
  plr_cm2Percent :: jsnum
  plr_cm3Percent :: jsnum
  plr_netProfitPercent :: jsnum

text \<open>The emitted row: every figure rounded to cents, every percentage to one decimal.\<close>

definition plRow :: "PLSettings \<Rightarrow> real \<Rightarrow> nat \<Rightarrow> PLPeriod \<Rightarrow> PLRow" where
  "plRow cfg totalRefunds periods m =
     (let f = plFigures cfg totalRefunds periods m
      in \<lparr> plr_figures =
             \<lparr> plf_grossRevenue = roundCents (plf_grossRevenue f),
               plf_returns = roundCents (plf_returns f),
               plf_netRevenue = roundCents (plf_netRevenue f),
               plf_cogs = roundCents (plf_cogs f),
               plf_grossProfit = roundCents (plf_grossProfit f),
               plf_shippingCost = roundCents (plf_shippingCost f),
               plf_transactionFees = roundCents (plf_transactionFees f),
               plf_fulfillmentCost = roundCents (plf_fulfillmentCost f),
               plf_cm2 = roundCents (plf_cm2 f),
               plf_adSpend = roundCents (plf_adSpend f),
               plf_cm3 = roundCents (plf_cm3 f),
               plf_opex = roundCents (plf_opex f),
               plf_netProfit = roundCents (plf_netProfit f) \<rparr>,
           plr_grossProfitPercent =
             jsRoundTenth (percentOfNet (plf_grossProfit f) (plf_netRevenue f)),
           plr_cm2Percent = jsRoundTenth (percentOfNet (plf_cm2 f) (plf_netRevenue f)),
           plr_cm3Percent = jsRoundTenth (percentOfNet (plf_cm3 f) (plf_netRevenue f)),
           plr_netProfitPercent =
             jsRoundTenth (percentOfNet (plf_netProfit f) (plf_netRevenue f)) \<rparr>)"

section \<open>Keys of the override map\<close>

text \<open>The keys under which \<open>csvShippingCostMap\<close> stores an entry, and the keys that
  \<open>getShippingCost\<close> looks up for an order name.\<close>

definition storedKeys :: "ShippingCostEntry \<Rightarrow> jsstring set" where
  "storedKeys e =
     {entryOrderId e, normalizeName (entryOrderId e), 0x23 # normalizeName (entryOrderId e)}"

definition lookupKeys :: "jsstring \<Rightarrow> jsstring set" where
  "lookupKeys name = {name, normalizeName name, 0x23 # normalizeName name}"

section \<open>Example inputs\<close>

definition noFilters :: Filters where
  "noFilters =
     \<lparr> f_productId = Some ''all'', f_productType = Some ''all'', f_channel = Some ''all'' \<rparr>"

definition apparelOnly :: Filters where
  "apparelOnly =
     \<lparr> f_productId = Some ''all'', f_productType = Some ''Apparel'', f_channel = None \<rparr>"

text \<open>A server on UTC, on 20 January 2025: the third week of the year.\<close>

definition janClock :: Clock where
  "janClock = \<lparr> startOfYear = 1735689600000, nowMs = 1737374400000, currentYear = 2025 \<rparr>"

definition freeItem :: LineItem where
  "freeItem = \<lparr> li_productId = Some ''p0'', li_productTitle = Some ''Sample'',
     li_productType = Some ''Gift'', li_tags = [], li_vendor = None, li_sku = None,
     li_title = None, li_variantTitle = None, li_quantity = 1, li_originalTotal = 0,
     li_totalDiscount = 0 \<rparr>"

definition freeOrder :: Order where
  "freeOrder = \<lparr> o_id = ''o1'', o_createdMs = 1736510400000, o_dayKey = (2025, 1, 10),
     o_isoDate = (2025, 1, 10), o_customerId = None, o_channelName = None, o_totalPrice = 5,
     o_totalDiscounts = 0, o_subtotalPrice = 0, o_totalShippingPrice = 5,
     o_lineItems = [freeItem] \<rparr>"

definition shirt :: LineItem where
  "shirt = \<lparr> li_productId = Some ''p1'', li_productTitle = Some ''Shirt'',
     li_productType = Some ''Apparel'', li_tags = [], li_vendor = None, li_sku = Some ''S-1'',
     li_title = None, li_variantTitle = None, li_quantity = 1, li_originalTotal = 60,
     li_totalDiscount = 0 \<rparr>"

definition cap :: LineItem where
  "cap = \<lparr> li_productId = Some ''p2'', li_productTitle = Some ''Cap'',
     li_productType = Some ''Apparel'', li_tags = [], li_vendor = None, li_sku = Some ''C-1'',
     li_title = None, li_variantTitle = None, li_quantity = 2, li_originalTotal = 40,
     li_totalDiscount = 0 \<rparr>"

definition twoItemOrder :: Order where
  "twoItemOrder = \<lparr> o_id = ''o2'', o_createdMs = 1736510400000, o_dayKey = (2025, 1, 10),
     o_isoDate = (2025, 1, 10), o_customerId = None, o_channelName = None, o_totalPrice = 90,
     o_totalDiscounts = 10, o_subtotalPrice = 90, o_totalShippingPrice = 0,
     o_lineItems = [shirt, cap] \<rparr>"

definition guestOrder :: "string \<Rightarrow> real \<Rightarrow> Order" where
  "guestOrder oid amount = \<lparr> o_id = oid, o_createdMs = 1736510400000, o_dayKey = (2025, 1, 10),
     o_isoDate = (2025, 1, 10), o_customerId = None, o_channelName = None, o_totalPrice = amount,
     o_totalDiscounts = 0, o_subtotalPrice = amount, o_totalShippingPrice = 0,
     o_lineItems = [] \<rparr>"

definition row1007 :: OrderRow where
  "row1007 = \<lparr> orderName = Some (units ''#1007''), grossSales = 110, rowDiscounts = 10,
     shippingRevenue = 5, itemCount = 1, paymentGateway = Some ''bogus'',
     shippingLineCost = None \<rparr>"

definition override :: "jsstring \<Rightarrow> real \<Rightarrow> ShippingCostEntry" where
  "override key cost = \<lparr> entryOrderId = key, entryOrderName = key, shippingCost = cost \<rparr>"

text \<open>A server on UTC, on 6 March 2025: the tenth week of the year.\<close>

definition marClock :: Clock where
  "marClock = \<lparr> startOfYear = 1735689600000, nowMs = 1741219200000, currentYear = 2025 \<rparr>"

text \<open>The order of the waterfall scenario: subtotal 100, order discount 10, shipping 5.\<close>

definition scenarioItem :: LineItem where
  "scenarioItem = \<lparr> li_productId = Some ''p1'', li_productTitle = Some ''Shirt'',
     li_productType = Some ''Apparel'', li_tags = [], li_vendor = None, li_sku = Some ''S-1'',
     li_title = None, li_variantTitle = None, li_quantity = 1, li_originalTotal = 110,
     li_totalDiscount = 0 \<rparr>"

definition scenarioOrder :: Order where
  "scenarioOrder = \<lparr> o_id = ''gid://shopify/Order/1'', o_createdMs = 1736510400000,
     o_dayKey = (2025, 1, 10), o_isoDate = (2025, 1, 10), o_customerId = Some ''c1'',
     o_channelName = None, o_totalPrice = 95, o_totalDiscounts = 10, o_subtotalPrice = 100,
     o_totalShippingPrice = 5, o_lineItems = [scenarioItem] \<rparr>"

definition scenarioAcc :: PeriodAcc where
  "scenarioAcc = \<lparr> a_grossRevenue = 110, a_discounts = 10, a_orderCount = 1,
     a_shippingRevenue = 5, a_itemCount = 1 \<rparr>"

text \<open>An order of three line items, all of one product.\<close>

definition threeShirts :: Order where
  "threeShirts = \<lparr> o_id = ''o3'', o_createdMs = 1736510400000, o_dayKey = (2025, 1, 10),
     o_isoDate = (2025, 1, 10), o_customerId = None, o_channelName = None, o_totalPrice = 180,
     o_totalDiscounts = 0, o_subtotalPrice = 180, o_totalShippingPrice = 0,
     o_lineItems = [shirt, shirt, shirt] \<rparr>"

text \<open>An order of the scenario amounts paid through PayPal, as the action reads it.\<close>

definition paypalNode :: OrderNode where
  "paypalNode = \<lparr> n_name = Some (units ''#1008''), n_subtotalPrice = 100, n_totalDiscounts = 10,
     n_totalShippingPrice = 5, n_quantities = [1], n_paymentGatewayNames = [''paypal''] \<rparr>"

section \<open>Percent fields and a net revenue of zero\<close>

lemma percentOfNet_finite: "isFinite (percentOfNet x n)"
  by (simp add: percentOfNet_def jsDiv_def jsTimes_def isFinite_def)

lemma percentOfNet_zero: "percentOfNet x 0 = Num 0"
  by (simp add: percentOfNet_def)

text \<open>
  Claim C7. In a per-order row, a per-channel row and a totals row whose net revenue is 0,
  the margin (CM2 as a percent of net revenue) is 0: it is not \<open>NaN\<close> and not infinite.
\<close>

theorem zero_net_revenue_margin:
  fixes r :: EnrichedRow
  assumes "r = enrichOrder ss es tfs row \<or> r = enrichChannel c \<or> r = totalsRow rows"
    and "e_netRevenue r = 0"
  shows "e_margin r = Num 0 \<and> e_margin r \<noteq> NaN \<and> e_margin r \<noteq> PosInf \<and> e_margin r \<noteq> NegInf"
proof -
  have "e_margin r = percentOfNet (e_cm2 r) (e_netRevenue r)"
    using assms(1)
    by (auto simp: enrichOrder_def enrichChannel_def totalsRow_def Let_def)
  with assms(2) show ?thesis
    by (simp add: percentOfNet_zero)
qed

theorem zero_net_revenue_margin_witness:
  "e_netRevenue (enrichChannel \<lparr>c_grossRevenue = 10, c_discounts = 10, c_orderCount = 1\<rparr>) = 0
   \<and> e_cm2 (enrichChannel \<lparr>c_grossRevenue = 10, c_discounts = 10, c_orderCount = 1\<rparr>)
       = - (53 / 10)
   \<and> e_margin (enrichChannel \<lparr>c_grossRevenue = 10, c_discounts = 10, c_orderCount = 1\<rparr>)
       = Num 0"
  using zero_net_revenue_margin
    [of "enrichChannel \<lparr>c_grossRevenue = 10, c_discounts = 10, c_orderCount = 1\<rparr>"
      undefined undefined undefined undefined
      "\<lparr>c_grossRevenue = 10, c_discounts = 10, c_orderCount = 1\<rparr>" undefined]
  by (simp add: enrichChannel_def Let_def productCostPercent_def shippingCostPerOrder_def
      transactionFeePercent_def transactionFeeFlat_def)

section \<open>Transaction fees of an unknown gateway\<close>

lemma find_no_match: "\<forall>x\<in>set xs. \<not> P x \<Longrightarrow> find P xs = None"
  by (induction xs) auto

text \<open>
  Claim C5. When the lower-cased gateway name contains none of \<open>paypal\<close>, \<open>stripe\<close>,
  \<open>shopify\<close>, \<open>shop_pay\<close> and no API name of an additional gateway, the fee is
  \<open>netRevenue * shopifyPayments.rate / 100 + shopifyPayments.fixedFee\<close>: the default rate
  with no surcharge. The function is total, so there is no error case.
\<close>

theorem unresolved_gateway_default_fee:
  assumes "gl = toLowerCase (case gateway of None \<Rightarrow> [] | Some g \<Rightarrow> g)"
    and "\<not> includesStr gl ''paypal''" and "\<not> includesStr gl ''stripe''"
    and "\<not> includesStr gl ''shopify''" and "\<not> includesStr gl ''shop_pay''"
    and "\<forall>g\<in>set (additionalGateways tfs). \<not> includesStr gl (toLowerCase (apiName g))"
  shows "getTransactionFees tfs netRevenue gateway
           = netRevenue * rate (shopifyPayments tfs) / 100 + fixedFee (shopifyPayments tfs)"
proof -
  have "find (\<lambda>g. includesStr gl (toLowerCase (apiName g))) (additionalGateways tfs) = None"
    using assms(6) by (rule find_no_match)
  then show ?thesis
    using assms(1-5) by (simp add: getTransactionFees_def Let_def)
qed

theorem unresolved_gateway_default_fee_witness:
  "getTransactionFees initialTransactionFeeSettings 105 (Some ''Bogus Pay'') = 3345 / 1000"
  using unresolved_gateway_default_fee [of "''bogus pay''" "Some ''Bogus Pay''"
      initialTransactionFeeSettings 105]
  by (simp add: toLowerCase_def toLowerChar_def initialTransactionFeeSettings_def)

section \<open>The shipping cost override\<close>

lemma storeEntry_apply:
  "storeEntry m e k = (if k \<in> storedKeys e then Some (shippingCost e) else m k)"
  by (auto simp: storeEntry_def storedKeys_def Let_def)

lemma csvMap_found:
  "e \<in> set es \<Longrightarrow> k \<in> storedKeys e \<Longrightarrow>
     \<exists>e'\<in>set es. k \<in> storedKeys e' \<and> foldl storeEntry m es k = Some (shippingCost e')"
proof (induction es arbitrary: m rule: rev_induct)
  case Nil
  then show ?case by simp
next
  case (snoc x xs)
  show ?case
  proof (cases "k \<in> storedKeys x")
    case True
    then show ?thesis by (auto simp: storeEntry_apply)
  next
    case False
    with snoc.prems have "e \<in> set xs" by auto
    from snoc.IH [OF this snoc.prems(2)] False show ?thesis
      by (auto simp: storeEntry_apply)
  qed
qed

lemma csvMap_only:
  "foldl storeEntry m es k = Some c \<Longrightarrow>
     m k = Some c \<or> (\<exists>e'\<in>set es. k \<in> storedKeys e' \<and> shippingCost e' = c)"
proof (induction es arbitrary: c rule: rev_induct)
  case Nil
  then show ?case by simp
next
  case (snoc x xs)
  then show ?case
    by (auto simp: storeEntry_apply split: if_splits)
qed

lemma jsOr_cases:
  "jsOr a (jsOr b (Some c)) = Some d \<Longrightarrow> a = Some d \<or> b = Some d \<or> c = d"
  by (auto simp: jsOr_def split: option.splits if_splits)

lemma jsOr_Some: "\<exists>d. jsOr a (jsOr b (Some c)) = Some d"
  by (auto simp: jsOr_def split: option.splits)

lemma units_1007:
  "units ''1007'' = [0x31, 0x30, 0x30, 0x37]" "units ''#1007'' = [0x23, 0x31, 0x30, 0x30, 0x37]"
  by (simp_all add: units_def)

lemma normalizeName_1007:
  "normalizeName [0x23, 0x31, 0x30, 0x30, 0x37] = [0x31, 0x30, 0x30, 0x37]"
  "normalizeName [0x31, 0x30, 0x30, 0x37] = [0x31, 0x30, 0x30, 0x37]"
  "normalizeName [0x31, 0x30, 0x30, 0x37, 0xA0] = [0x31, 0x30, 0x30, 0x37]"
  by (simp_all add: normalizeName_def trim_def isSpace_def)

text \<open>
  Claim C4, at two overrides for one order: the list holds the override \<open>1007\<close> of cost 3
  and after it the override \<open>#1007\<close> of cost 4, as two uploads that the merge keeps apart
  by their exact keys. The key \<open>1007\<close> equals the order name \<open>#1007\<close> up to the leading hash
  sign, but the cost returned for the order is 4 and not the cost 3 of that override.
\<close>

theorem override_cost_counterexample:
  "stripHash (entryOrderId (override (units ''1007'') 3)) = stripHash (rowName row1007)
   \<and> getShippingCost initialShippingSettings
        [override (units ''1007'') 3, override (units ''#1007'') 4] row1007 = (4, Csv)
   \<and> fst (getShippingCost initialShippingSettings
        [override (units ''1007'') 3, override (units ''#1007'') 4] row1007)
       \<noteq> shippingCost (override (units ''1007'') 3)"
  by (simp add: getShippingCost_def csvShippingCostMap_def storeEntry_def rowName_def
      row1007_def override_def normalizeName_1007 jsOr_def Let_def units_1007)

text \<open>
  Claim C4 as amended. For an order with no authoritative label cost (absent, or not above 0)
  and an override entry whose key equals the order name once one leading hash sign is dropped
  from either, the resolved source is \<open>csv\<close>, whatever estimate is configured, and the
  resolved cost is the cost of an entry that is stored under one of the looked-up keys. It is
  the cost of the matching entry when every entry stored under a looked-up key carries that
  cost.
\<close>

theorem csv_override_found:
  assumes "\<forall>c. shippingLineCost row = Some c \<longrightarrow> \<not> 0 < c"
    and "e \<in> set shippingCostData"
    and "stripHash (entryOrderId e) = stripHash (rowName row)"
  shows "snd (getShippingCost ss shippingCostData row) = Csv
         \<and> (\<exists>e'\<in>set shippingCostData.
               storedKeys e' \<inter> lookupKeys (rowName row) \<noteq> {}
               \<and> fst (getShippingCost ss shippingCostData row) = shippingCost e')
         \<and> ((\<forall>e'\<in>set shippingCostData.
                storedKeys e' \<inter> lookupKeys (rowName row) \<noteq> {}
                  \<longrightarrow> shippingCost e' = shippingCost e)
              \<longrightarrow> fst (getShippingCost ss shippingCostData row) = shippingCost e)"
proof -
  define m where "m = csvShippingCostMap shippingCostData"
  define n where "n = normalizeName (rowName row)"
  have noLabel: "(case shippingLineCost row of Some c \<Rightarrow> if 0 < c then Some c else None
                   | None \<Rightarrow> None) = None"
    using assms(1) by (auto split: option.splits)
  have "normalizeName (entryOrderId e) = n"
    using assms(3) by (simp add: normalizeName_def n_def)
  then have key: "0x23 # n \<in> storedKeys e"
    by (simp add: storedKeys_def)
  from csvMap_found [OF assms(2) key, of Map.empty]
  obtain e0 where e0: "e0 \<in> set shippingCostData" "m (0x23 # n) = Some (shippingCost e0)"
    by (auto simp: m_def csvShippingCostMap_def)
  obtain d where d: "jsOr (m (rowName row)) (jsOr (m n) (m (0x23 # n))) = Some d"
    using jsOr_Some [of "m (rowName row)" "m n" "shippingCost e0"] e0(2) by auto
  have res: "getShippingCost ss shippingCostData row = (d, Csv)"
    using noLabel d by (simp add: getShippingCost_def Let_def m_def n_def)
  from d e0(2) have hit: "m (rowName row) = Some d \<or> m n = Some d \<or> m (0x23 # n) = Some d"
    using jsOr_cases [of "m (rowName row)" "m n" "shippingCost e0" d] by auto
  have origin: "\<exists>e'\<in>set shippingCostData. k \<in> storedKeys e' \<and> shippingCost e' = c"
    if "m k = Some c" for k c
    using csvMap_only [of Map.empty shippingCostData k c] that
    by (auto simp: m_def csvShippingCostMap_def)
  from hit obtain k where k: "k \<in> lookupKeys (rowName row)" "m k = Some d"
    by (auto simp: lookupKeys_def n_def)
  from origin [OF k(2)] k(1)
  have some: "\<exists>e'\<in>set shippingCostData.
                storedKeys e' \<inter> lookupKeys (rowName row) \<noteq> {} \<and> d = shippingCost e'"
    by auto
  have "d = shippingCost e"
    if H: "\<forall>e'\<in>set shippingCostData.
             storedKeys e' \<inter> lookupKeys (rowName row) \<noteq> {} \<longrightarrow> shippingCost e' = shippingCost e"
    using some H by auto
  with res some show ?thesis by simp
qed

theorem csv_override_found_witness:
  "getShippingCost initialShippingSettings [override (units ''1007'') (25 / 2)] row1007
     = (25 / 2, Csv)"
  using csv_override_found [of row1007 "override (units ''1007'') (25 / 2)"
      "[override (units ''1007'') (25 / 2)]" initialShippingSettings]
  by (simp add: rowName_def row1007_def override_def units_1007 normalizeName_1007
      storedKeys_def lookupKeys_def prod_eq_iff)

text \<open>The other direction: the override carries the hash sign and the order name does not.\<close>

lemma hash_on_the_override:
  "getShippingCost initialShippingSettings [override (units ''#1007'') (25 / 2)]
     (row1007\<lparr> orderName := Some (units ''1007'') \<rparr>) = (25 / 2, Csv)"
  by (simp add: getShippingCost_def csvShippingCostMap_def storeEntry_def rowName_def
      row1007_def override_def normalizeName_1007 jsOr_def Let_def units_1007)

text \<open>
  A key with a trailing no-break space is trimmed to the same normalised key, so its entry
  overwrites the one before it.
\<close>

lemma trailing_no_break_space:
  "getShippingCost initialShippingSettings
     [override (units ''1007'') (25 / 2), override (units ''1007'' @ [0xA0]) 99] row1007
     = (99, Csv)"
  by (simp add: getShippingCost_def csvShippingCostMap_def storeEntry_def rowName_def
      row1007_def override_def normalizeName_1007 jsOr_def Let_def units_1007)

section \<open>Orders of no value\<close>

lemma selectChannel_append:
  "selectChannel f (xs @ ys) = selectChannel f xs @ selectChannel f ys"
  by (simp add: selectChannel_def)

text \<open>
  Claim C10. An order whose computed gross revenue and discounts are both 0 leaves the four
  period accumulators and the two running totals as they were, so no bucket counts it and its
  shipping revenue and item count are not in the totals; the whole accumulation is the one of
  the feed without that order.
\<close>

theorem zero_value_order_dropped:
  assumes "g_grossRevenue (orderFigures f order) = 0"
    and "g_discounts (orderFigures f order) = 0"
  shows "accumulateOrder clk f st order = st
         \<and> accumulateAll clk f (before @ order # after) = accumulateAll clk f (before @ after)"
proof -
  have step: "accumulateOrder clk f s order = s" for s
    using assms by (simp add: accumulateOrder_def Let_def split: prod.splits)
  have "selectChannel f (before @ order # after)
          = selectChannel f before @ selectChannel f [order] @ selectChannel f after"
    using selectChannel_append [of f before "[order] @ after"]
          selectChannel_append [of f "[order]" after] by simp
  moreover have "selectChannel f [order] = [order] \<or> selectChannel f [order] = []"
    by (simp add: selectChannel_def)
  ultimately have "accumulateAll clk f (before @ order # after)
                     = foldl (accumulateOrder clk f) (initialState clk)
                         (selectChannel f before @ selectChannel f after)"
    using step by (auto simp: accumulateAll_def)
  then show ?thesis
    using step by (simp add: accumulateAll_def selectChannel_append)
qed

theorem zero_value_order_dropped_witness:
  "g_shippingRevenue (orderFigures noFilters freeOrder) = 5
   \<and> g_itemCount (orderFigures noFilters freeOrder) = 1
   \<and> accumulateOrder janClock noFilters (initialState janClock) freeOrder = initialState janClock
   \<and> accumulateAll janClock noFilters ([] @ freeOrder # [])
       = accumulateAll janClock noFilters ([] @ [])"
  using zero_value_order_dropped [of noFilters freeOrder janClock "initialState janClock" "[]" "[]"]
  by (simp add: orderFigures_def noFilters_def freeOrder_def freeItem_def hasFilter_def)

section \<open>Proration of the order discount\<close>

lemma filtered_discounts:
  "g_discounts (foldl (addLineItem f order) fig items)
     = g_discounts fig + sum_list (map (allocatedDiscount order) (filter (lineItemMatches f) items))"
  by (induction items arbitrary: fig) (auto simp: addLineItem_def)

lemma prorated_sum:
  fixes d t :: real
  assumes "t \<noteq> 0"
  shows "sum_list (map (\<lambda>li. d * (g li / t)) items) = d * (sum_list (map g items) / t)"
  by (induction items) (auto simp: algebra_simps add_divide_distrib)

text \<open>
  Claim C2. Take an order with an order discount that is not zero (a discount total is an
  amount, so it is not negative) and a positive subtotal, none of whose line items has a
  discount of its own. If it has one line item, that item is allocated the whole order
  discount. If it has more than one, each is allocated
  \<open>orderDiscount * (originalTotal / (subtotal + orderDiscount))\<close>. If the original totals add
  up to \<open>subtotal + orderDiscount\<close>, the allocations of all line items add up to the order
  discount. In the filtered mode the \<open>discounts\<close> of the order are the sum of the allocations of
  the line items that match the filter.
\<close>

theorem discount_proration:
  assumes nonzero: "o_totalDiscounts order \<noteq> 0" and amount: "0 \<le> o_totalDiscounts order"
    and sub: "0 < o_subtotalPrice order"
    and noLine: "\<forall>li\<in>set (o_lineItems order). li_totalDiscount li = 0"
  shows "(\<forall>li. o_lineItems order = [li] \<longrightarrow> allocatedDiscount order li = o_totalDiscounts order)
     \<and> (1 < length (o_lineItems order) \<longrightarrow>
          (\<forall>li\<in>set (o_lineItems order).
             allocatedDiscount order li
               = o_totalDiscounts order
                   * (li_originalTotal li / (o_subtotalPrice order + o_totalDiscounts order))))
     \<and> (sum_list (map li_originalTotal (o_lineItems order))
            = o_subtotalPrice order + o_totalDiscounts order \<longrightarrow>
          sum_list (map (allocatedDiscount order) (o_lineItems order)) = o_totalDiscounts order)
     \<and> (hasFilter (f_productId f) \<or> hasFilter (f_productType f) \<longrightarrow>
          g_discounts (orderFigures f order)
            = sum_list (map (allocatedDiscount order)
                (filter (lineItemMatches f) (o_lineItems order))))"
proof -
  let ?d = "o_totalDiscounts order" and ?s = "o_subtotalPrice order"
  let ?items = "o_lineItems order"
  have disc: "0 < ?d"
    using nonzero amount by simp
  have single: "allocatedDiscount order li = ?d" if "?items = [li]" for li
    using that disc sub noLine by (simp add: allocatedDiscount_def Let_def)
  have multi: "allocatedDiscount order li = ?d * (li_originalTotal li / (?s + ?d))"
    if "1 < length ?items" "li \<in> set ?items" for li
    using that disc sub noLine by (simp add: allocatedDiscount_def Let_def)
  have total: "sum_list (map (allocatedDiscount order) ?items) = ?d"
    if tot: "sum_list (map li_originalTotal ?items) = ?s + ?d"
  proof (cases "length ?items = 1")
    case True
    then obtain li where li: "?items = [li]"
      by (cases ?items) auto
    with single show ?thesis by simp
  next
    case False
    have nz: "?s + ?d \<noteq> 0" using disc sub by simp
    have "?items \<noteq> []" using tot nz by auto
    with False have "1 < length ?items"
      by (cases ?items) auto
    then have "map (allocatedDiscount order) ?items
                 = map (\<lambda>li. ?d * (li_originalTotal li / (?s + ?d))) ?items"
      using multi by simp
    then have "sum_list (map (allocatedDiscount order) ?items)
                 = ?d * (sum_list (map li_originalTotal ?items) / (?s + ?d))"
      using prorated_sum [OF nz, of ?d li_originalTotal ?items] by presburger
    then show ?thesis
      using tot nz by simp
  qed
  have loop: "g_discounts (orderFigures f order)
                = sum_list (map (allocatedDiscount order) (filter (lineItemMatches f) ?items))"
    if "hasFilter (f_productId f) \<or> hasFilter (f_productType f)"
    using that by (simp add: orderFigures_def filtered_discounts)
  show ?thesis
    using single multi total loop by blast
qed

theorem discount_proration_witness:
  "allocatedDiscount twoItemOrder shirt = 6 \<and> allocatedDiscount twoItemOrder cap = 4
   \<and> sum_list (map (allocatedDiscount twoItemOrder) (o_lineItems twoItemOrder)) = 10
   \<and> g_discounts (orderFigures apparelOnly twoItemOrder) = 10"
  using discount_proration [of twoItemOrder apparelOnly]
  by (simp add: twoItemOrder_def shirt_def cap_def apparelOnly_def hasFilter_def
      lineItemMatches_def)

section \<open>Guest customers\<close>

text \<open>
  Claim C9, at two guest orders of 30 each. \<open>customerSpend\<close> keys both with \<open>guest\<close>: it has
  one entry of 60, the LTV buckets count one customer in the range from 50 to 100 and none in
  the range from 25 to 50, and \<open>totalCustomers\<close> is 1. \<open>customerFirstOrder\<close> keeps the two
  orders apart under the keys \<open>guest-\<close> followed by the order id.
\<close>

theorem guest_orders_merged:
  "customerSpend [guestOrder ''gid://1'' 30, guestOrder ''gid://2'' 30] = [(''guest'', 60)]
   \<and> map b_count (ltvBuckets [guestOrder ''gid://1'' 30, guestOrder ''gid://2'' 30])
       = [0, 0, 1, 0, 0, 0, 0]
   \<and> d_totalCustomers (dashboard janClock noFilters
        [guestOrder ''gid://1'' 30, guestOrder ''gid://2'' 30]) = 1
   \<and> map fst (customerFirstOrder janClock [guestOrder ''gid://1'' 30, guestOrder ''gid://2'' 30])
       = [''guest-gid://1'', ''guest-gid://2'']"
  by (simp add: customerSpend_def addSpend_def spendKey_def orElse_def guestOrder_def
      ltvBuckets_def emptyBuckets_def dashboard_def Let_def selectChannel_def noFilters_def
      hasFilter_def customerFirstOrder_def addFirstOrder_def firstOrderKey_def)

section \<open>The weekly chart\<close>

lemma seed_fold_keys:
  "fst ` set (foldl (\<lambda>m i. AList.update i z m) m0 xs) = fst ` set m0 \<union> set xs"
  by (induction xs arbitrary: m0) (auto simp: dom_update)

lemma seed_fold_distinct:
  "distinct (map fst m0) \<Longrightarrow> distinct (map fst (foldl (\<lambda>m i. AList.update i z m) m0 xs))"
  by (induction xs arbitrary: m0) (auto simp: distinct_update)

lemma seed_fold_value:
  "map_of (foldl (\<lambda>m i. AList.update i z m) m0 xs) k
     = (if k \<in> set xs then Some z else map_of m0 k)"
  by (induction xs arbitrary: m0) (auto simp: update_conv')

lemma seedWeeks_keys: "fst ` set (seedWeeks n) = {1..n}"
  by (simp add: seedWeeks_def seed_fold_keys)

lemma seedWeeks_distinct: "distinct (map fst (seedWeeks n))"
  by (simp add: seedWeeks_def seed_fold_distinct)

lemma seedWeeks_value:
  "map_of (seedWeeks n) k = (if 1 \<le> k \<and> k \<le> n then Some zeroAcc else None)"
  by (simp add: seedWeeks_def seed_fold_value)

lemma addOrderTo_keys: "fst ` set (addOrderTo m k fig) = insert k (fst ` set m)"
  by (simp add: addOrderTo_def Let_def dom_update)

lemma addOrderTo_distinct: "distinct (map fst m) \<Longrightarrow> distinct (map fst (addOrderTo m k fig))"
  by (simp add: addOrderTo_def Let_def distinct_update)

lemma addOrderTo_other: "k \<noteq> w \<Longrightarrow> map_of (addOrderTo m k fig) w = map_of m w"
  by (simp add: addOrderTo_def Let_def update_conv')

lemma weekly_step:
  "weeklyData (accumulateOrder clk f st order)
     = (if isAccumulated f order
        then addOrderTo (weeklyData st) (weekOf clk order) (orderFigures f order)
        else weeklyData st)"
  by (simp add: accumulateOrder_def isAccumulated_def Let_def split: prod.splits)

lemma totals_step:
  "st_totalShippingRevenue (accumulateOrder clk f st order)
     = (if isAccumulated f order
        then st_totalShippingRevenue st + g_shippingRevenue (orderFigures f order)
        else st_totalShippingRevenue st)"
  by (simp add: accumulateOrder_def isAccumulated_def Let_def split: prod.splits)

lemma weekly_loop_keys:
  "fst ` set (weeklyData st) \<subseteq> fst ` set (weeklyData (foldl (accumulateOrder clk f) st orders))"
proof (induction orders arbitrary: st)
  case Nil
  then show ?case by simp
next
  case (Cons order orders)
  have "fst ` set (weeklyData st) \<subseteq> fst ` set (weeklyData (accumulateOrder clk f st order))"
    by (auto simp: weekly_step addOrderTo_keys)
  with Cons.IH [of "accumulateOrder clk f st order"] show ?case by auto
qed

lemma weekly_loop_distinct:
  "distinct (map fst (weeklyData st))
     \<Longrightarrow> distinct (map fst (weeklyData (foldl (accumulateOrder clk f) st orders)))"
  by (induction orders arbitrary: st) (auto simp: weekly_step addOrderTo_distinct)

lemma weekly_loop_untouched:
  "\<forall>order\<in>set orders. isAccumulated f order \<longrightarrow> weekOf clk order \<noteq> w
     \<Longrightarrow> map_of (weeklyData (foldl (accumulateOrder clk f) st orders)) w = map_of (weeklyData st) w"
  by (induction orders arbitrary: st) (auto simp: weekly_step addOrderTo_other)

lemma one_entry_per_key:
  "distinct (map fst al) \<Longrightarrow> k \<in> fst ` set al \<Longrightarrow> length (filter (\<lambda>e. fst e = k) al) = 1"
proof (induction al)
  case Nil
  then show ?case by simp
next
  case (Cons a al)
  show ?case
  proof (cases "fst a = k")
    case True
    with Cons.prems have "k \<notin> fst ` set al" by simp
    then have "\<forall>e\<in>set al. fst e \<noteq> k" by force
    then have "filter (\<lambda>e. fst e = k) al = []" by (simp add: filter_empty_conv)
    with True show ?thesis by simp
  next
    case False
    with Cons show ?thesis by auto
  qed
qed

lemma week_chartRow: "week (chartRow e) = fst e"
  by (simp add: chartRow_def Let_def)

lemma chart_filter:
  "filter (\<lambda>r. week r = w) (chartData st)
     = sort_key week (map chartRow (filter (\<lambda>e. fst e = w) (weeklyData st)))"
  by (simp add: chartData_def filter_sort filter_map comp_def week_chartRow)

lemma chart_sorted: "sorted (map week (chartData st))"
  by (simp add: chartData_def)

lemma chartRow_zero:
  "chartRow (w, zeroAcc)
     = \<lparr> week = w, r_grossRevenue = 0, r_discounts = 0, r_netRevenue = 0, r_grossProfit = 0,
         r_cm2 = 0, r_orderCount = 0, r_shippingRevenue = 0, r_itemCount = 0 \<rparr>"
  by (simp add: chartRow_def Let_def zeroAcc_def periodNetRev_def periodCogs_def
      periodFulfill_def roundCents_def mathRound_def)

lemma chart_row_origin:
  assumes "r \<in> set (chartData st)" and "distinct (map fst (weeklyData st))"
  shows "\<exists>a. map_of (weeklyData st) (week r) = Some a \<and> r = chartRow (week r, a)"
proof -
  from assms(1) obtain e where e: "e \<in> set (weeklyData st)" "r = chartRow e"
    by (auto simp: chartData_def)
  then have "map_of (weeklyData st) (fst e) = Some (snd e)"
    using assms(2) map_of_is_SomeI [of "weeklyData st" "fst e" "snd e"] by simp
  then show ?thesis
    using e(2) by (simp add: week_chartRow)
qed

text \<open>
  Claim C8. With the current year 2025, the weekly chart is sorted by week number and has
  exactly one row for every week from 1 to the current week; when no accumulated order of
  the (channel-filtered) feed falls into such a week, its row has order count 0 and gross
  revenue 0.
\<close>

theorem empty_weeks_seeded:
  assumes year: "currentYear clk = 2025"
    and rows: "rows = d_chartData (dashboard clk f fetched)"
    and w: "1 \<le> w" "w \<le> getWeekNumber (startOfYear clk) (nowMs clk)"
  shows "sorted (map week rows)
     \<and> length (filter (\<lambda>r. week r = w) rows) = 1
     \<and> ((\<forall>order\<in>set (selectChannel f fetched). isAccumulated f order \<longrightarrow> weekOf clk order \<noteq> w)
          \<longrightarrow> (\<forall>r\<in>set rows. week r = w \<longrightarrow> r_orderCount r = 0 \<and> r_grossRevenue r = 0))"
proof -
  define st where "st = foldl (accumulateOrder clk f) (initialState clk) (selectChannel f fetched)"
  have rows_eq: "rows = chartData st"
    by (simp add: rows dashboard_def Let_def st_def)
  have seed: "weeklyData (initialState clk) = seedWeeks (maxWeek clk)"
    by (simp add: initialState_def)
  have mw: "maxWeek clk = getWeekNumber (startOfYear clk) (nowMs clk)"
    using year by (simp add: maxWeek_def)
  have dist: "distinct (map fst (weeklyData st))"
    unfolding st_def by (rule weekly_loop_distinct) (simp add: seed seedWeeks_distinct)
  have "w \<in> fst ` set (weeklyData (initialState clk))"
    using w by (simp add: seed seedWeeks_keys mw)
  then have key: "w \<in> fst ` set (weeklyData st)"
    unfolding st_def using weekly_loop_keys by blast
  have one: "length (filter (\<lambda>r. week r = w) rows) = 1"
    by (simp add: rows_eq chart_filter one_entry_per_key [OF dist key])
  have zero: "r_orderCount r = 0 \<and> r_grossRevenue r = 0"
    if quiet: "\<forall>order\<in>set (selectChannel f fetched). isAccumulated f order \<longrightarrow> weekOf clk order \<noteq> w"
      and r: "r \<in> set rows" "week r = w" for r
  proof -
    have "map_of (weeklyData st) w = map_of (weeklyData (initialState clk)) w"
      unfolding st_def using quiet by (rule weekly_loop_untouched)
    also have "\<dots> = Some zeroAcc"
      using w by (simp add: seed seedWeeks_value mw)
    finally have "map_of (weeklyData st) w = Some zeroAcc" .
    moreover from chart_row_origin [OF _ dist, of r] r rows_eq
    obtain a where "map_of (weeklyData st) w = Some a" "r = chartRow (w, a)" by auto
    ultimately have "r = chartRow (w, zeroAcc)" by simp
    then show ?thesis
      by (simp add: chartRow_zero)
  qed
  show ?thesis
    using one zero by (auto simp: rows_eq chart_sorted)
qed

text \<open>The scenario order on the clock of week 10: it falls into week 2.\<close>

lemma upto_1_10: "[1..10::int] = [1, 2, 3, 4, 5, 6, 7, 8, 9, 10]"
  by (simp add: upto.simps)

lemma marClock_maxWeek: "maxWeek marClock = 10"
  by (simp add: maxWeek_def marClock_def getWeekNumber_def)

lemma marClock_seed:
  "weeklyData (initialState marClock)
     = [(1, zeroAcc), (2, zeroAcc), (3, zeroAcc), (4, zeroAcc), (5, zeroAcc), (6, zeroAcc),
        (7, zeroAcc), (8, zeroAcc), (9, zeroAcc), (10, zeroAcc)]"
  by (simp add: initialState_def marClock_maxWeek seedWeeks_def upto_1_10)

lemma scenario_figures:
  "orderFigures noFilters scenarioOrder
     = \<lparr> g_grossRevenue = 110, g_discounts = 10, g_shippingRevenue = 5, g_itemCount = 1 \<rparr>"
  by (simp add: orderFigures_def noFilters_def hasFilter_def scenarioOrder_def scenarioItem_def)

lemma scenario_week: "weekOf marClock scenarioOrder = 2"
  by (simp add: weekOf_def marClock_def scenarioOrder_def getWeekNumber_def)

lemma noFilters_select: "selectChannel noFilters xs = xs"
  by (simp add: selectChannel_def noFilters_def hasFilter_def)

lemma scenario_accumulated: "isAccumulated noFilters scenarioOrder"
  by (simp add: isAccumulated_def scenario_figures)

lemma scenario_weekly:
  "weeklyData (accumulateOrder marClock noFilters (initialState marClock) scenarioOrder)
     = [(1, zeroAcc), (2, scenarioAcc), (3, zeroAcc), (4, zeroAcc), (5, zeroAcc), (6, zeroAcc),
        (7, zeroAcc), (8, zeroAcc), (9, zeroAcc), (10, zeroAcc)]"
  by (simp add: weekly_step scenario_accumulated scenario_figures scenario_week marClock_seed
      addOrderTo_def getAcc_def Let_def scenarioAcc_def zeroAcc_def)

lemma scenario_shipping:
  "st_totalShippingRevenue
     (accumulateOrder marClock noFilters (initialState marClock) scenarioOrder) = 5"
  by (simp add: totals_step scenario_accumulated scenario_figures initialState_def)

lemma chartRow_scenario:
  "chartRow (w, scenarioAcc)
     = \<lparr> week = w, r_grossRevenue = 110, r_discounts = 10, r_netRevenue = 105,
         r_grossProfit = 65, r_cm2 = 5666 / 100, r_orderCount = 1, r_shippingRevenue = 5,
         r_itemCount = 1 \<rparr>"
  by (simp add: chartRow_def Let_def scenarioAcc_def periodNetRev_def periodCogs_def
      periodFulfill_def costPercent_def shippingCostPerOrder_def txFeePercent_def txFeeFlat_def
      roundCents_def mathRound_def)

lemma scenario_rows:
  "d_chartData (dashboard marClock noFilters [scenarioOrder])
     = map chartRow
         [(1, zeroAcc), (2, scenarioAcc), (3, zeroAcc), (4, zeroAcc), (5, zeroAcc), (6, zeroAcc),
          (7, zeroAcc), (8, zeroAcc), (9, zeroAcc), (10, zeroAcc)]"
  by (simp add: dashboard_def Let_def noFilters_select chartData_def scenario_weekly
      week_chartRow)

lemma scenario_totals:
  "d_totalRevenue (dashboard marClock noFilters [scenarioOrder]) = 110
   \<and> d_totalDiscounts (dashboard marClock noFilters [scenarioOrder]) = 10
   \<and> d_totalOrders (dashboard marClock noFilters [scenarioOrder]) = 1
   \<and> d_totalShippingRevenue (dashboard marClock noFilters [scenarioOrder]) = 5"
  using scenario_rows
  by (simp add: dashboard_def Let_def noFilters_select scenario_shipping chartRow_zero
      chartRow_scenario roundCents_def mathRound_def)

theorem empty_weeks_seeded_witness:
  "map week (d_chartData (dashboard marClock noFilters [scenarioOrder]))
     = [1, 2, 3, 4, 5, 6, 7, 8, 9, 10]
   \<and> length (filter (\<lambda>r. week r = 4) (d_chartData (dashboard marClock noFilters [scenarioOrder])))
       = 1
   \<and> week (d_chartData (dashboard marClock noFilters [scenarioOrder]) ! 3) = 4
   \<and> r_orderCount (d_chartData (dashboard marClock noFilters [scenarioOrder]) ! 3) = 0
   \<and> r_grossRevenue (d_chartData (dashboard marClock noFilters [scenarioOrder]) ! 3) = 0"
  using empty_weeks_seeded [of marClock "d_chartData (dashboard marClock noFilters [scenarioOrder])"
      noFilters "[scenarioOrder]" 4]
  by (simp add: scenario_rows chartRow_zero chartRow_scenario)

section \<open>The waterfall scenario\<close>

lemma scenario_metrics:
  "indexMetrics (dashboard marClock noFilters [scenarioOrder])
     = \<lparr> m_grossRevenue = 110, m_netRevenue = 105, m_productCost = 40, m_grossProfit = 65,
         m_fulfillmentCost = 8345 / 1000, m_cm2 = 56655 / 1000,
         m_cm2Percent = Num (3777 / 70) \<rparr>"
  by (simp add: indexMetrics_def Let_def scenario_totals productCostPercent_def
      shippingCostPerOrder_def transactionFeePercent_def transactionFeeFlat_def
      percentOfNet_def jsDiv_def jsTimes_def)

lemma scenario_bucket:
  "periodCogs scenarioAcc = 40" "periodFulfill scenarioAcc = 8345 / 1000"
  by (simp_all add: periodCogs_def periodFulfill_def periodNetRev_def scenarioAcc_def
      costPercent_def shippingCostPerOrder_def txFeePercent_def txFeeFlat_def)

text \<open>
  Claim C1, at the scenario order (subtotal 100, order discount 10, shipping revenue 5, no
  returns) on the dashboard: the percentage of CM2 in net revenue is 3777/70 = 53.957...,
  which one decimal shows as 54.0, not as 53.9.
\<close>

theorem waterfall_percent_counterexample:
  "m_cm2Percent (indexMetrics (dashboard marClock noFilters [scenarioOrder])) = Num (3777 / 70)
   \<and> toFixed1 (3777 / 70) \<noteq> 539 / 10 \<and> roundTenth (3777 / 70) \<noteq> 539 / 10"
  by (simp add: scenario_metrics toFixed1_def roundTenth_def mathRound_def)

text \<open>
  Claim C1 as amended. For the scenario order the dashboard waterfall gives: gross revenue 110,
  net revenue 105, COGS 40 on the basis net of discount, gross profit 65, fulfillment cost
  8.345, CM2 56.655, which the chart row of the order's week rounds to 56.66, and a CM2
  percentage of net revenue that one decimal shows as 54.0.
\<close>

theorem waterfall_scenario:
  "d_chartData (dashboard marClock noFilters [scenarioOrder]) ! 1
     = \<lparr> week = 2, r_grossRevenue = 110, r_discounts = 10, r_netRevenue = 105,
         r_grossProfit = 65, r_cm2 = 5666 / 100, r_orderCount = 1, r_shippingRevenue = 5,
         r_itemCount = 1 \<rparr>
   \<and> periodCogs scenarioAcc = 40 \<and> periodFulfill scenarioAcc = 8345 / 1000
   \<and> indexMetrics (dashboard marClock noFilters [scenarioOrder])
       = \<lparr> m_grossRevenue = 110, m_netRevenue = 105, m_productCost = 40, m_grossProfit = 65,
           m_fulfillmentCost = 8345 / 1000, m_cm2 = 56655 / 1000,
           m_cm2Percent = Num (3777 / 70) \<rparr>
   \<and> roundCents (56655 / 1000) = 5666 / 100
   \<and> toFixed1 (3777 / 70) = 54"
  by (simp add: scenario_rows chartRow_scenario scenario_metrics scenario_bucket
      roundCents_def mathRound_def toFixed1_def)

theorem waterfall_scenario_witness:
  "r_cm2 (d_chartData (dashboard marClock noFilters [scenarioOrder]) ! 1) = 5666 / 100
   \<and> m_cm2 (indexMetrics (dashboard marClock noFilters [scenarioOrder])) = 56655 / 1000"
  using waterfall_scenario by simp

section \<open>Orders counted once per key\<close>

lemma product_line_ids:
  "orderProductIds (addProductLine tf gf oid st li) k
     = (if countsForProduct tf gf k li then insert oid (orderProductIds st k)
        else orderProductIds st k)"
  by (auto simp: addProductLine_def countsForProduct_def Let_def split: option.splits)

lemma product_line_count:
  "productOrderCount (addProductLine tf gf oid st li) k
     = (if countsForProduct tf gf k li \<and> oid \<notin> orderProductIds st k
        then productOrderCount st k + 1 else productOrderCount st k)"
  by (auto simp: addProductLine_def countsForProduct_def productOrderCount_def Let_def
      update_conv' split: option.splits)

lemma product_line_inv: "productInv st \<Longrightarrow> productInv (addProductLine tf gf oid st li)"
  unfolding productInv_def
  by (auto simp: product_line_ids product_line_count insert_absorb)

lemma product_order_inv: "productInv st \<Longrightarrow> productInv (addProductOrder tf gf st order)"
proof -
  have "productInv st \<Longrightarrow> productInv (foldl (addProductLine tf gf oid) st items)" for oid items
    by (induction items arbitrary: st) (auto simp: product_line_inv)
  then show "productInv st \<Longrightarrow> productInv (addProductOrder tf gf st order)"
    by (simp add: addProductOrder_def)
qed

lemma product_order_ids:
  "orderProductIds (addProductOrder tf gf st order) k
     = orderProductIds st k
         \<union> (if \<exists>li\<in>set (o_lineItems order). countsForProduct tf gf k li then {o_id order} else {})"
proof -
  have "orderProductIds (foldl (addProductLine tf gf oid) st items) k
          = orderProductIds st k \<union> (if \<exists>li\<in>set items. countsForProduct tf gf k li then {oid} else {})"
    for oid items
    by (induction items arbitrary: st) (auto simp: product_line_ids)
  then show ?thesis
    by (simp add: addProductOrder_def)
qed

lemma product_all_inv:
  "productInv st \<Longrightarrow> productInv (foldl (addProductOrder tf gf) st orders)"
  by (induction orders arbitrary: st) (auto simp: product_order_inv)

lemma product_all_ids:
  "orderProductIds (foldl (addProductOrder tf gf) st orders) k
     = orderProductIds st k
         \<union> {o_id order | order. order \<in> set orders
               \<and> (\<exists>li\<in>set (o_lineItems order). countsForProduct tf gf k li)}"
  by (induction orders arbitrary: st) (auto simp: product_order_ids)

lemma group_line_ids:
  "orderGroupIds (addGroupLine keyOf oid st li) k
     = (if keyOf li = k then insert oid (orderGroupIds st k) else orderGroupIds st k)"
  by (auto simp: addGroupLine_def Let_def)

lemma group_line_count:
  "groupOrderCount (addGroupLine keyOf oid st li) k
     = (if keyOf li = k \<and> oid \<notin> orderGroupIds st k
        then groupOrderCount st k + 1 else groupOrderCount st k)"
  by (auto simp: addGroupLine_def groupOrderCount_def Let_def update_conv' split: option.splits)

lemma group_line_inv: "groupInv st \<Longrightarrow> groupInv (addGroupLine keyOf oid st li)"
  unfolding groupInv_def
  by (auto simp: group_line_ids group_line_count insert_absorb)

lemma group_order_inv: "groupInv st \<Longrightarrow> groupInv (addGroupOrder keyOf st order)"
proof -
  have "groupInv st \<Longrightarrow> groupInv (foldl (addGroupLine keyOf oid) st items)" for oid items
    by (induction items arbitrary: st) (auto simp: group_line_inv)
  then show "groupInv st \<Longrightarrow> groupInv (addGroupOrder keyOf st order)"
    by (simp add: addGroupOrder_def)
qed

lemma group_order_ids:
  "orderGroupIds (addGroupOrder keyOf st order) k
     = orderGroupIds st k
         \<union> (if \<exists>li\<in>set (o_lineItems order). keyOf li = k then {o_id order} else {})"
proof -
  have "orderGroupIds (foldl (addGroupLine keyOf oid) st items) k
          = orderGroupIds st k \<union> (if \<exists>li\<in>set items. keyOf li = k then {oid} else {})"
    for oid items
    by (induction items arbitrary: st) (auto simp: group_line_ids)
  then show ?thesis
    by (simp add: addGroupOrder_def)
qed

lemma group_all_inv: "groupInv st \<Longrightarrow> groupInv (foldl (addGroupOrder keyOf) st orders)"
  by (induction orders arbitrary: st) (auto simp: group_order_inv)

lemma group_all_ids:
  "orderGroupIds (foldl (addGroupOrder keyOf) st orders) k
     = orderGroupIds st k
         \<union> {o_id order | order. order \<in> set orders
               \<and> (\<exists>li\<in>set (o_lineItems order). keyOf li = k)}"
  by (induction orders arbitrary: st) (auto simp: group_order_ids)

text \<open>
  Claim C3. In the profit-by-product and the profit-by-product-type aggregation, the order
  count of a key is the number of distinct orders with at least one line item for that key
  (for a product: a line item that names it and that no filter rejects). So an order adds at
  most 1 to the count of a key, however many of its line items match.
\<close>

theorem order_counted_once:
  "productOrderCount (profitByProduct tf gf allOrders) k
     = card {o_id order | order. order \<in> set allOrders
              \<and> (\<exists>li\<in>set (o_lineItems order). countsForProduct tf gf k li)}
   \<and> groupOrderCount (profitByProductType allOrders) t
     = card {o_id order | order. order \<in> set allOrders
              \<and> (\<exists>li\<in>set (o_lineItems order). productTypeOf li = t)}"
proof -
  have "productInv \<lparr> productData = [], orderProductIds = (\<lambda>_. {}) \<rparr>"
    by (simp add: productInv_def productOrderCount_def)
  then have "productInv (profitByProduct tf gf allOrders)"
    unfolding profitByProduct_def by (rule product_all_inv)
  then have p: "productOrderCount (profitByProduct tf gf allOrders) k
                  = card (orderProductIds (profitByProduct tf gf allOrders) k)"
    by (simp add: productInv_def)
  have "groupInv \<lparr> groupData = [], orderGroupIds = (\<lambda>_. {}) \<rparr>"
    by (simp add: groupInv_def groupOrderCount_def)
  then have "groupInv (profitByProductType allOrders)"
    unfolding profitByProductType_def by (rule group_all_inv)
  then have g: "groupOrderCount (profitByProductType allOrders) t
                  = card (orderGroupIds (profitByProductType allOrders) t)"
    by (simp add: groupInv_def)
  have pid: "orderProductIds (profitByProduct tf gf allOrders) k
               = {o_id order | order. order \<in> set allOrders
                    \<and> (\<exists>li\<in>set (o_lineItems order). countsForProduct tf gf k li)}"
    by (simp add: profitByProduct_def product_all_ids)
  have gid: "orderGroupIds (profitByProductType allOrders) t
               = {o_id order | order. order \<in> set allOrders
                    \<and> (\<exists>li\<in>set (o_lineItems order). productTypeOf li = t)}"
    by (simp add: profitByProductType_def group_all_ids)
  show ?thesis
    using p g by (simp only: pid gid)
qed


theorem order_counted_once_witness:
  "productOrderCount (profitByProduct None None [threeShirts]) ''p1'' = 1
   \<and> groupOrderCount (profitByProductType [threeShirts]) ''Apparel'' = 1
   \<and> map row_orderCount (productReport (profitByProduct None None [threeShirts])) = [1]
   \<and> map row_grossRevenue (productReport (profitByProduct None None [threeShirts])) = [180]"
  using order_counted_once [of None None "[threeShirts]" "''p1''" "''Apparel''"]
  by (simp add: profitByProduct_def addProductOrder_def addProductLine_def threeShirts_def
      shirt_def rejectedByFilters_def productOrderCount_def Let_def orElse_def
      profitByProductType_def addGroupOrder_def addGroupLine_def productTypeOf_def
      groupOrderCount_def productReport_def productRow_def productCosts_def roundCents_def
      mathRound_def)

section \<open>The default cost assumptions\<close>

lemma sku_scenario:
  "skuReport [scenarioOrder]
     = [\<lparr> sku_sku = ''S-1'', sku_title = ''Shirt'', sku_grossRevenue = 110, sku_discounts = 0,
          sku_netRevenue = 110, sku_cogs = 44, sku_grossProfit = 66, sku_fulfillmentCost = 2,
          sku_cm2 = 64, sku_quantity = 1 \<rparr>]"
  by (simp add: skuReport_def profitBySKU_def addSkuLine_def scenarioOrder_def scenarioItem_def
      skuRow_def skuCosts_def skuTitle_def orElse_def Let_def cogsPercent_def roundCents_def
      mathRound_def)

lemma paypal_row:
  "orderReportRow paypalNode
     = \<lparr> orderName = Some (units ''#1008''), grossSales = 110, rowDiscounts = 10,
         shippingRevenue = 5, itemCount = 1, paymentGateway = Some ''paypal'',
         shippingLineCost = None \<rparr>"
  by (simp add: orderReportRow_def paypalNode_def orderGateway_def orElse_def Let_def
      roundCents_def mathRound_def)

lemma paypal_scenario:
  "enrichOrder initialShippingSettings [] initialTransactionFeeSettings (orderReportRow paypalNode)
     = \<lparr> e_grossRevenue = 115, e_discounts = 10, e_netRevenue = 105, e_cogs = 42,
         e_grossProfit = 63, e_fulfillmentCost = 86295 / 10000, e_cm2 = 543705 / 10000,
         e_margin = Num (36247 / 700) \<rparr>"
  by (simp add: paypal_row enrichOrder_def getShippingCost_def getTransactionFees_def
      initialShippingSettings_def initialTransactionFeeSettings_def csvShippingCostMap_def
      rowName_def jsOr_def Let_def toLowerCase_def toLowerChar_def productCostPercent_def
      percentOfNet_def jsDiv_def jsTimes_def)

text \<open>
  Claim C6, at two buckets. In the profit-by-SKU report of a feed of one order with one line
  item (quantity 1, original total 110) the fulfillment cost is 2, two dollars per item, and
  not 5 + 110 * 2.9% + 0.30. In the profit-by-order report with the settings untouched, an
  order of net revenue 105 paid through PayPal has the fulfillment cost
  5 + 105 * 2.99% + 0.49 = 8.6295, and not 5 + 105 * 2.9% + 0.30.
\<close>

theorem default_fulfillment_counterexample:
  "sku_fulfillmentCost (skuReport [scenarioOrder] ! 0) = 2
   \<and> sku_fulfillmentCost (skuReport [scenarioOrder] ! 0)
       \<noteq> 1 * shippingCostPerOrder + sku_netRevenue (skuReport [scenarioOrder] ! 0) * txFeeFraction
           + 1 * txFeeFlat
   \<and> e_fulfillmentCost (enrichOrder initialShippingSettings [] initialTransactionFeeSettings
        (orderReportRow paypalNode)) = 86295 / 10000
   \<and> e_fulfillmentCost (enrichOrder initialShippingSettings [] initialTransactionFeeSettings
        (orderReportRow paypalNode))
       \<noteq> 1 * shippingCostPerOrder
           + e_netRevenue (enrichOrder initialShippingSettings [] initialTransactionFeeSettings
               (orderReportRow paypalNode)) * txFeeFraction
           + 1 * txFeeFlat"
  by (simp add: sku_scenario paypal_scenario shippingCostPerOrder_def txFeeFraction_def
      txFeeFlat_def)

lemma initial_shipping:
  "getShippingCost initialShippingSettings [] (orderReportRow node) = (5, Estimate)"
  by (simp add: getShippingCost_def orderReportRow_def Let_def csvShippingCostMap_def jsOr_def
      initialShippingSettings_def)

lemma initial_fees:
  "getTransactionFees initialTransactionFeeSettings net (Some g)
     = (if includesStr (toLowerCase g) ''paypal'' then net * (299 / 10000) + 49 / 100
        else net * (29 / 1000) + 3 / 10)"
  by (simp add: getTransactionFees_def initialTransactionFeeSettings_def Let_def)

lemma initial_by_order:
  "e_cogs (enrichOrder initialShippingSettings [] initialTransactionFeeSettings
            (orderReportRow node))
     = e_netRevenue (enrichOrder initialShippingSettings [] initialTransactionFeeSettings
            (orderReportRow node)) * (40 / 100)
   \<and> e_fulfillmentCost (enrichOrder initialShippingSettings [] initialTransactionFeeSettings
            (orderReportRow node))
     = (if includesStr (toLowerCase (orderGateway node)) ''paypal''
        then 5 + e_netRevenue (enrichOrder initialShippingSettings [] initialTransactionFeeSettings
                   (orderReportRow node)) * (299 / 10000) + 49 / 100
        else 5 + e_netRevenue (enrichOrder initialShippingSettings [] initialTransactionFeeSettings
                   (orderReportRow node)) * (29 / 1000) + 3 / 10)"
proof -
  have g: "paymentGateway (orderReportRow node) = Some (orderGateway node)"
    by (simp add: orderReportRow_def Let_def)
  show ?thesis
    by (simp add: enrichOrder_def Let_def initial_shipping initial_fees g productCostPercent_def)
qed

text \<open>
  Claim C6 as amended. With no configuration supplied, every report computes its waterfall
  from built-in defaults, and COGS is 40% in every report. The fulfillment cost of a bucket is
  5 per order plus 2.9% of the net revenue plus 0.30 per order in the profit-by-product,
  profit-by-product-type and profit-by-vendor reports, in the profit-by-channel report, in
  the four period charts and the headline metrics of the dashboard, in the P&L report and in
  the profit-by-order report with fixed costs. In the profit-by-order report that takes the
  settings it is the same for an order whose gateway name does not contain \<open>paypal\<close>, and
  5 plus 2.99% of the net revenue plus 0.49 for one whose name does. In the profit-by-SKU
  report it is 2 per item.
\<close>

theorem default_cost_assumptions:
  "k_cogs (productCosts d) = (p_grossRevenue d - p_discounts d) * (40 / 100)
   \<and> k_fulfillmentCost (productCosts d)
       = of_nat (p_orderCount d) * 5 + (p_grossRevenue d - p_discounts d) * (29 / 1000)
           + of_nat (p_orderCount d) * (3 / 10)
   \<and> k_cogs (groupCosts g) = (t_grossRevenue g - t_discounts g) * (40 / 100)
   \<and> k_fulfillmentCost (groupCosts g)
       = of_nat (t_orderCount g) * 5 + (t_grossRevenue g - t_discounts g) * (29 / 1000)
           + of_nat (t_orderCount g) * (3 / 10)
   \<and> e_cogs (enrichChannel c) = e_netRevenue (enrichChannel c) * (40 / 100)
   \<and> e_fulfillmentCost (enrichChannel c)
       = of_nat (c_orderCount c) * 5 + e_netRevenue (enrichChannel c) * (29 / 1000)
           + of_nat (c_orderCount c) * (3 / 10)
   \<and> periodCogs a = (a_grossRevenue a - a_discounts a) * (40 / 100)
   \<and> periodFulfill a
       = of_nat (a_orderCount a) * 5 + periodNetRev a * (29 / 1000) + of_nat (a_orderCount a) * (3 / 10)
   \<and> m_productCost (indexMetrics dd) = (d_totalRevenue dd - d_totalDiscounts dd) * (40 / 100)
   \<and> m_fulfillmentCost (indexMetrics dd)
       = of_nat (d_totalOrders dd) * 5 + m_netRevenue (indexMetrics dd) * (29 / 1000)
           + of_nat (d_totalOrders dd) * (3 / 10)
   \<and> plf_cogs (plFigures initialPLSettings totalRefunds periods m)
       = (pl_grossSales m - pl_discounts m) * (40 / 100)
   \<and> plf_fulfillmentCost (plFigures initialPLSettings totalRefunds periods m)
       = of_nat (pl_orderCount m) * 5
           + plf_netRevenue (plFigures initialPLSettings totalRefunds periods m) * (29 / 1000)
           + of_nat (pl_orderCount m) * (3 / 10)
   \<and> e_cogs (enrichOrderFixed row) = e_netRevenue (enrichOrderFixed row) * (40 / 100)
   \<and> e_fulfillmentCost (enrichOrderFixed row)
       = 5 + e_netRevenue (enrichOrderFixed row) * (29 / 1000) + 3 / 10
   \<and> e_cogs (enrichOrder initialShippingSettings [] initialTransactionFeeSettings
              (orderReportRow node))
       = e_netRevenue (enrichOrder initialShippingSettings [] initialTransactionFeeSettings
              (orderReportRow node)) * (40 / 100)
   \<and> e_fulfillmentCost (enrichOrder initialShippingSettings [] initialTransactionFeeSettings
              (orderReportRow node))
       = (if includesStr (toLowerCase (orderGateway node)) ''paypal''
          then 5 + e_netRevenue (enrichOrder initialShippingSettings [] initialTransactionFeeSettings
                     (orderReportRow node)) * (299 / 10000) + 49 / 100
          else 5 + e_netRevenue (enrichOrder initialShippingSettings [] initialTransactionFeeSettings
                     (orderReportRow node)) * (29 / 1000) + 3 / 10)
   \<and> k_cogs (skuCosts s) = (s_grossRevenue s - s_discounts s) * (40 / 100)
   \<and> k_fulfillmentCost (skuCosts s) = of_nat (s_quantity s) * 2"
proof -
  have product: "k_cogs (productCosts d) = (p_grossRevenue d - p_discounts d) * (40 / 100)"
    "k_fulfillmentCost (productCosts d)
       = of_nat (p_orderCount d) * 5 + (p_grossRevenue d - p_discounts d) * (29 / 1000)
           + of_nat (p_orderCount d) * (3 / 10)"
    by (simp_all add: productCosts_def Let_def cogsPercent_def txFeeFraction_def txFeeFlat_def
        shippingCostPerOrder_def)
  have grouped: "k_cogs (groupCosts g) = (t_grossRevenue g - t_discounts g) * (40 / 100)"
    "k_fulfillmentCost (groupCosts g)
       = of_nat (t_orderCount g) * 5 + (t_grossRevenue g - t_discounts g) * (29 / 1000)
           + of_nat (t_orderCount g) * (3 / 10)"
    by (simp_all add: groupCosts_def Let_def cogsPercent_def txFeeFraction_def txFeeFlat_def
        shippingCostPerOrder_def)
  have channel: "e_cogs (enrichChannel c) = e_netRevenue (enrichChannel c) * (40 / 100)"
    "e_fulfillmentCost (enrichChannel c)
       = of_nat (c_orderCount c) * 5 + e_netRevenue (enrichChannel c) * (29 / 1000)
           + of_nat (c_orderCount c) * (3 / 10)"
    by (simp_all add: enrichChannel_def Let_def productCostPercent_def shippingCostPerOrder_def
        transactionFeePercent_def transactionFeeFlat_def)
  have period: "periodCogs a = (a_grossRevenue a - a_discounts a) * (40 / 100)"
    "periodFulfill a
       = of_nat (a_orderCount a) * 5 + periodNetRev a * (29 / 1000) + of_nat (a_orderCount a) * (3 / 10)"
    by (simp_all add: periodCogs_def periodFulfill_def costPercent_def shippingCostPerOrder_def
        txFeePercent_def txFeeFlat_def)
  have headline: "m_productCost (indexMetrics dd) = (d_totalRevenue dd - d_totalDiscounts dd) * (40 / 100)"
    "m_fulfillmentCost (indexMetrics dd)
       = of_nat (d_totalOrders dd) * 5 + m_netRevenue (indexMetrics dd) * (29 / 1000)
           + of_nat (d_totalOrders dd) * (3 / 10)"
    by (simp_all add: indexMetrics_def Let_def productCostPercent_def shippingCostPerOrder_def
        transactionFeePercent_def transactionFeeFlat_def)
  have pl: "plf_cogs (plFigures initialPLSettings totalRefunds periods m)
       = (pl_grossSales m - pl_discounts m) * (40 / 100)"
    "plf_fulfillmentCost (plFigures initialPLSettings totalRefunds periods m)
       = of_nat (pl_orderCount m) * 5
           + plf_netRevenue (plFigures initialPLSettings totalRefunds periods m) * (29 / 1000)
           + of_nat (pl_orderCount m) * (3 / 10)"
    by (simp_all add: plFigures_def initialPLSettings_def Let_def)
  have fixed: "e_cogs (enrichOrderFixed row) = e_netRevenue (enrichOrderFixed row) * (40 / 100)"
    "e_fulfillmentCost (enrichOrderFixed row)
       = 5 + e_netRevenue (enrichOrderFixed row) * (29 / 1000) + 3 / 10"
    by (simp_all add: enrichOrderFixed_def Let_def productCostPercent_def shippingCostPerOrder_def
        transactionFeePercent_def transactionFeeFlat_def)
  have sku: "k_cogs (skuCosts s) = (s_grossRevenue s - s_discounts s) * (40 / 100)"
    "k_fulfillmentCost (skuCosts s) = of_nat (s_quantity s) * 2"
    by (simp_all add: skuCosts_def Let_def cogsPercent_def)
  show ?thesis
    using product grouped channel period headline pl fixed sku initial_by_order [of node]
    by blast
qed

theorem default_cost_assumptions_witness:
  "k_fulfillmentCost (productCosts
      \<lparr> p_title = ''Shirt'', p_productType = ''Apparel'', p_tags = [], p_grossRevenue = 110,
        p_discounts = 10, p_orderCount = 1, p_itemCount = 1 \<rparr>) = 82 / 10
   \<and> k_fulfillmentCost (skuCosts
      \<lparr> s_sku = ''S-1'', s_title = ''Shirt'', s_grossRevenue = 110, s_discounts = 10,
        s_quantity = 3 \<rparr>) = 6
   \<and> e_fulfillmentCost (enrichOrder initialShippingSettings [] initialTransactionFeeSettings
        (orderReportRow paypalNode)) = 86295 / 10000"
  using default_cost_assumptions
    [where d = "\<lparr> p_title = ''Shirt'', p_productType = ''Apparel'', p_tags = [],
        p_grossRevenue = 110, p_discounts = 10, p_orderCount = 1, p_itemCount = 1 \<rparr>"
      and s = "\<lparr> s_sku = ''S-1'', s_title = ''Shirt'', s_grossRevenue = 110, s_discounts = 10,
        s_quantity = 3 \<rparr>"
      and node = paypalNode]
  by (simp add: paypal_scenario)

text \<open>
  The scenario order in the profit-by-order report, with the initial settings: this report
  adds the shipping revenue to the gross revenue and takes COGS from the net revenue.
\<close>

lemma scenario_by_order:
  "enrichOrder initialShippingSettings [] initialTransactionFeeSettings row1007
     = \<lparr> e_grossRevenue = 115, e_discounts = 10, e_netRevenue = 105, e_cogs = 42,
         e_grossProfit = 63, e_fulfillmentCost = 8345 / 1000, e_cm2 = 54655 / 1000,
         e_margin = Num (10931 / 210) \<rparr>"
  by (simp add: enrichOrder_def getShippingCost_def getTransactionFees_def row1007_def
      initialShippingSettings_def initialTransactionFeeSettings_def csvShippingCostMap_def
      rowName_def jsOr_def Let_def toLowerCase_def toLowerChar_def productCostPercent_def
      percentOfNet_def jsDiv_def jsTimes_def)

end
